theory Spec2Isabelle
  imports Main
begin

section \<open>Values exchanged with the server\<close>

text \<open>
  A decoded JSON document, as Python's \<open>json\<close> module hands it to the program: \<open>None\<close>,
  \<open>bool\<close>, \<open>int\<close>, \<open>str\<close>, \<open>list\<close> and \<open>dict\<close> (a dict as its list of items).
  Fractional numbers are left out of the model. The request payloads, which the program
  builds as dicts and lists, are values of the same type.
\<close>

datatype json =
    JNull
  | JBool bool
  | JNum int
  | JStr string
  | JArr "json list"
  | JObj "(string \<times> json) list"

text \<open>
  A \<open>requests.Response\<close>: its status code, its body text and what its \<open>json()\<close> method
  gives (\<open>None\<close> when the body does not decode and \<open>json()\<close> raises \<open>JSONDecodeError\<close>).
\<close>

record response =
  status_code :: int
  resp_text :: string
  resp_json :: "json option"

text \<open>One HTTP call either gets a response or raises a \<open>RequestException\<close>.\<close>

datatype outcome = Replied response | RequestException

datatype http_method = GET | POST

text \<open>
  The exceptions that leave the program: \<open>SystemExit\<close> with its code (\<open>sys.exit(1)\<close> in
  main.py, \<open>exit()\<close> in overnads.py), \<open>JSONDecodeError\<close> where no handler encloses the
  call of \<open>json()\<close>, and the two errors Python raises when a decoded document has not the
  shape the code reads it with.
\<close>

datatype exc = SystemExit "int option" | JSONDecodeError | AttributeError | TypeError

definition API_user_profile :: string where
  "API_user_profile = ''https://app.overnads.xyz/api/auth/me''"

definition API_game_start :: string where
  "API_game_start = ''https://app.overnads.xyz/api/game/start''"

definition API_game_end :: string where
  "API_game_end = ''https://app.overnads.xyz/api/game/end''"

section \<open>Observable behaviour\<close>

datatype level = PLAIN | INFO | SUCCESS | WARNING | ERROR

text \<open>The lines main.py prints, one constructor a line, with the values it interpolates.\<close>

datatype m_msg =
    M_AuthExpired
  | M_ServerError int int int int
  | M_NetworkError int int int
  | M_RequestFailed int string
  | M_Fetching
  | M_StatsUpdated json json json
  | M_ParseFailed
  | M_CouldNotFetch
  | M_CouldNotParseId
  | M_AttemptingClear string
  | M_Cleared
  | M_FailedToClear string
  | M_NoTickets
  | M_StartingSequence json
  | M_PlayingTicket int int
  | M_StuckDetected
  | M_SelfHealOk
  | M_SelfHealFailed
  | M_GameStarted
  | M_EndingGame int
  | M_GameFinished
  | M_CouldNotStart "int option" string
  | M_SkippingTicket
  | M_WaitingNext int
  | M_SequenceFinished
  | M_BotStarted
  | M_CouldNotFetchInitial
  | M_Welcome json
  | M_AllTasksComplete
  | M_SummaryHeader
  | M_SummaryIncomplete
  | M_SummaryColumns
  | M_SummaryRule
  | M_SummaryRow string json json json
  | M_SummaryFooter
  | M_ScriptFinished

text \<open>The lines overnads.py logs.\<close>

datatype o_msg =
    O_TelegramFailed
  | O_AuthExpired
  | O_ServerError int int
  | O_NetworkError int
  | O_RequestFailed int string
  | O_Fetching
  | O_StatsUpdated json json json
  | O_FoundStuck string
  | O_Cleared
  | O_FailedToClear string
  | O_CouldNotParseId
  | O_CouldNotParseJson
  | O_NoTickets
  | O_StartingSequence json
  | O_Rule
  | O_Attempting int int
  | O_StuckDetected
  | O_SelfHealOk
  | O_SelfHealFailed
  | O_GameStarted
  | O_EndingGame json
  | O_CouldNotStart int string
  | O_CouldNotSend
  | O_SkippingTicket
  | O_WaitingNext int
  | O_SequenceFinished int
  | O_BotStarted
  | O_CouldNotFetchInitial
  | O_AllTasksComplete
  | O_ScriptFinished

text \<open>The messages overnads.py posts to Telegram.\<close>

datatype tg_msg =
    TG_BotStarted
  | TG_AuthExpired
  | TG_StuckDetected
  | TG_SelfHealFailed
  | TG_CouldNotStart
  | TG_Welcome json json json json
  | TG_RunComplete json json json

text \<open>
  What a run does to the outside, in order: a request to the game API (method, URL, JSON
  payload), a post to the Telegram API, a \<open>time.sleep\<close> of so many seconds, a printed
  line (main.py), a logged line (overnads.py).
\<close>

datatype event =
    Request http_method string "json option"
  | Telegram tg_msg
  | Sleep int
  | Print level m_msg
  | Logging level o_msg

text \<open>
  The state threaded through the program: how many game API requests and Telegram posts
  were made, how many random numbers were drawn, the events so far, and the global
  \<open>account_stats\<close> of overnads.py.
\<close>

record state =
  calls :: nat
  tg_calls :: nat
  draws :: nat
  trace :: "event list"
  account_stats :: json

text \<open>
  The world the program runs in: the outcome of the \<open>k\<close>-th game API request, whether the
  \<open>k\<close>-th Telegram post raises, the \<open>k\<close>-th random number, and whether config.json has both
  \<open>telegram_bot_token\<close> and \<open>telegram_chat_id\<close>.
\<close>

record env =
  net :: "nat \<Rightarrow> outcome"
  tg_raises :: "nat \<Rightarrow> bool"
  rand :: "nat \<Rightarrow> nat"
  telegram_enabled :: bool

definition init :: state where
  "init = \<lparr>calls = 0, tg_calls = 0, draws = 0, trace = [], account_stats = JObj []\<rparr>"

definition emit :: "event \<Rightarrow> state \<Rightarrow> state" where
  "emit ev s = s\<lparr>trace := trace s @ [ev]\<rparr>"

definition time_sleep :: "int \<Rightarrow> state \<Rightarrow> state" where
  "time_sleep seconds s = emit (Sleep seconds) s"

text \<open>\<open>random.randint(a, b)\<close>: an integer \<open>N\<close> with \<open>a \<le> N \<le> b\<close>, from the next random number.\<close>

definition randint :: "env \<Rightarrow> int \<Rightarrow> int \<Rightarrow> state \<Rightarrow> int \<times> state" where
  "randint e a b s =
     (a + int (rand e (draws s) mod nat (b - a + 1)), s\<lparr>draws := Suc (draws s)\<rparr>)"

text \<open>One HTTP request to the game API: \<open>session.request\<close>, \<open>requests.post\<close>, \<open>requests.get\<close>.\<close>

definition http_request ::
  "env \<Rightarrow> http_method \<Rightarrow> string \<Rightarrow> json option \<Rightarrow> state \<Rightarrow> outcome \<times> state" where
  "http_request e method url payload s =
     (net e (calls s), emit (Request method url payload) (s\<lparr>calls := Suc (calls s)\<rparr>))"

text \<open>
  The truth value of a \<open>requests.Response\<close> is its \<open>ok\<close> property: false when the status
  is a client or server error (400 to 599). \<open>if response\<close> on a \<open>Response | None\<close> is
  therefore false on \<open>None\<close> and on every error response.
\<close>

definition response_ok :: "response \<Rightarrow> bool" where
  "response_ok r = (\<not> (400 \<le> status_code r \<and> status_code r < 600))"

definition truthy :: "response option \<Rightarrow> bool" where
  "truthy r = (case r of None \<Rightarrow> False | Some x \<Rightarrow> response_ok x)"

section \<open>Python operations the program relies on\<close>

text \<open>
  \<open>f(x) if x else d\<close> and \<open>x and p(x)\<close> on a \<open>Response | None\<close>, with the truth value of
  a response as above.
\<close>

definition if_truthy :: "response option \<Rightarrow> (response \<Rightarrow> 'a) \<Rightarrow> 'a \<Rightarrow> 'a" where
  "if_truthy x f d = (case x of None \<Rightarrow> d | Some r \<Rightarrow> if response_ok r then f r else d)"

definition truthy_and :: "response option \<Rightarrow> (response \<Rightarrow> bool) \<Rightarrow> bool" where
  "truthy_and x p = if_truthy x p False"

text \<open>The truth value of a decoded document, and of a \<open>dict | None\<close>.\<close>

fun py_bool :: "json \<Rightarrow> bool" where
  "py_bool JNull = False"
| "py_bool (JBool b) = b"
| "py_bool (JNum n) = (n \<noteq> 0)"
| "py_bool (JStr x) = (x \<noteq> [])"
| "py_bool (JArr xs) = (xs \<noteq> [])"
| "py_bool (JObj d) = (d \<noteq> [])"

definition opt_bool :: "json option \<Rightarrow> bool" where
  "opt_bool x = (case x of None \<Rightarrow> False | Some v \<Rightarrow> py_bool v)"

text \<open>
  \<open>x.get(key, default)\<close>: the value under the key in a dict, the default without the key,
  and \<open>AttributeError\<close> on everything that is not a dict.
\<close>

definition dict_get :: "(string \<times> json) list \<Rightarrow> string \<Rightarrow> json \<Rightarrow> json" where
  "dict_get d key dflt = (case map_of d key of None \<Rightarrow> dflt | Some v \<Rightarrow> v)"

fun py_get :: "json \<Rightarrow> string \<Rightarrow> json \<Rightarrow> exc + json" where
  "py_get (JObj d) key dflt = Inr (dict_get d key dflt)"
| "py_get _ key dflt = Inl AttributeError"

text \<open>
  The integer a value counts as in arithmetic and in \<open>range\<close> (\<open>bool\<close> is a subclass of
  \<open>int\<close>), \<open>x == 0\<close>, and \<open>x - y\<close>, which raises \<open>TypeError\<close> off the integers.
\<close>

fun py_index :: "json \<Rightarrow> int option" where
  "py_index (JNum n) = Some n"
| "py_index (JBool b) = Some (if b then 1 else 0)"
| "py_index _ = None"

definition py_eq_zero :: "json \<Rightarrow> bool" where
  "py_eq_zero x = (py_index x = Some 0)"

definition py_sub :: "json \<Rightarrow> json \<Rightarrow> exc + json" where
  "py_sub x y =
     (case py_index x of
        None \<Rightarrow> Inl TypeError
      | Some a \<Rightarrow> (case py_index y of None \<Rightarrow> Inl TypeError | Some b \<Rightarrow> Inr (JNum (a - b))))"

text \<open>\<open>sub in s\<close> on strings.\<close>

fun str_in :: "string \<Rightarrow> string \<Rightarrow> bool" where
  "str_in sub [] = (sub = [])"
| "str_in sub (c # cs) = (take (length sub) (c # cs) = sub \<or> str_in sub cs)"

text \<open>
  \<open>re.search(r'Game ID: ([a-f0-9\-]+)', s)\<close> and its \<open>group(1)\<close>: at the leftmost position
  where \<open>Game ID: \<close> is followed by at least one character of the class, the longest run
  of such characters.
\<close>

definition id_char :: "char \<Rightarrow> bool" where
  "id_char c = (c \<in> set ''abcdef0123456789-'')"

fun re_search_game_id :: "string \<Rightarrow> string option" where
  "re_search_game_id [] = None"
| "re_search_game_id (c # cs) =
     (if take 9 (c # cs) = ''Game ID: '' \<and> takeWhile id_char (drop 9 (c # cs)) \<noteq> []
      then Some (takeWhile id_char (drop 9 (c # cs)))
      else re_search_game_id cs)"

text \<open>Sequencing: an exception of the first part leaves the second part out.\<close>

definition andthen ::
  "(exc + 'a) \<times> state \<Rightarrow> ('a \<Rightarrow> state \<Rightarrow> (exc + 'b) \<times> state) \<Rightarrow> (exc + 'b) \<times> state" where
  "andthen m f = (case m of (Inl x, s) \<Rightarrow> (Inl x, s) | (Inr v, s) \<Rightarrow> f v s)"

section \<open>main.py\<close>

definition print_plain :: "m_msg \<Rightarrow> state \<Rightarrow> state" where
  "print_plain m s = emit (Print PLAIN m) s"

definition print_info :: "m_msg \<Rightarrow> state \<Rightarrow> state" where
  "print_info m s = emit (Print INFO m) s"

definition print_success :: "m_msg \<Rightarrow> state \<Rightarrow> state" where
  "print_success m s = emit (Print SUCCESS m) s"

definition print_warning :: "m_msg \<Rightarrow> state \<Rightarrow> state" where
  "print_warning m s = emit (Print WARNING m) s"

definition print_error :: "m_msg \<Rightarrow> state \<Rightarrow> state" where
  "print_error m s = emit (Print ERROR m) s"

text \<open>
  \<open>send_request\<close>: the body of \<open>for attempt in range(retries)\<close> over the attempts left, and
  the two lines after the loop when none is left. Every failed attempt is followed by
  \<open>time.sleep(backoff)\<close>, the last one too.
\<close>

fun send_request_attempts ::
  "env \<Rightarrow> http_method \<Rightarrow> string \<Rightarrow> json option \<Rightarrow> int \<Rightarrow> int \<Rightarrow> int list \<Rightarrow> state
   \<Rightarrow> (exc + response option) \<times> state" where
  "send_request_attempts e method url payload retries backoff [] s =
     (Inr None, print_error (M_RequestFailed retries url) s)"
| "send_request_attempts e method url payload retries backoff (attempt # rest) s =
     (case http_request e method url payload s of
        (Replied r, s1) \<Rightarrow>
          if status_code r = 401 then (Inl (SystemExit (Some 1)), print_error M_AuthExpired s1)
          else if status_code r < 500 then (Inr (Some r), s1)
          else send_request_attempts e method url payload retries backoff rest
                 (time_sleep backoff
                   (print_warning (M_ServerError (status_code r) backoff (attempt + 1) retries) s1))
      | (RequestException, s1) \<Rightarrow>
          send_request_attempts e method url payload retries backoff rest
            (time_sleep backoff
              (print_warning (M_NetworkError backoff (attempt + 1) retries) s1)))"

definition send_request ::
  "env \<Rightarrow> http_method \<Rightarrow> string \<Rightarrow> json option \<Rightarrow> int \<Rightarrow> int \<Rightarrow> state
   \<Rightarrow> (exc + response option) \<times> state" where
  "send_request e method url payload retries backoff s =
     send_request_attempts e method url payload retries backoff (map int [0..<nat retries]) s"

text \<open>\<open>fetch_account_stats\<close>. The three \<open>stats.get\<close> of the printed line need a dict.\<close>

definition fetch_account_stats_main :: "env \<Rightarrow> state \<Rightarrow> (exc + json option) \<times> state" where
  "fetch_account_stats_main e s =
     andthen (send_request e GET API_user_profile None 3 3 (print_info M_Fetching s))
       (\<lambda>response s1.
          if truthy_and response (\<lambda>r. status_code r = 200) then
            (case if_truthy response resp_json None of
               None \<Rightarrow> (Inr None, print_error M_ParseFailed s1)
             | Some stats \<Rightarrow>
                 (case stats of
                    JObj d \<Rightarrow>
                      (Inr (Some stats),
                       print_success
                         (M_StatsUpdated (dict_get d ''overPoints'' (JNum 0))
                            (dict_get d ''coins'' (JNum 0)) (dict_get d ''tickets'' (JNum 0))) s1)
                  | _ \<Rightarrow> (Inl AttributeError, s1)))
          else (Inr None, print_error M_CouldNotFetch s1))"

text \<open>\<open>handle_stuck_game\<close>, on the text of the error response.\<close>

definition handle_stuck_game_main :: "env \<Rightarrow> string \<Rightarrow> state \<Rightarrow> (exc + bool) \<times> state" where
  "handle_stuck_game_main e error_response_text s =
     (case re_search_game_id error_response_text of
        None \<Rightarrow> (Inr False, print_error M_CouldNotParseId s)
      | Some stuck_game_id \<Rightarrow>
          (case randint e 90 110 (print_warning (M_AttemptingClear stuck_game_id) s) of
             (points, s1) \<Rightarrow>
               andthen
                 (send_request e POST API_game_end
                    (Some (JObj [(''gameId'', JStr stuck_game_id), (''overPoints'', JNum points),
                                 (''collectedItems'', JArr [])])) 3 3 s1)
                 (\<lambda>end_response s2.
                    if truthy_and end_response (\<lambda>r. status_code r = 200 \<or> status_code r = 201)
                    then (Inr True, print_success M_Cleared s2)
                    else (Inr False,
                          print_error
                            (M_FailedToClear (if_truthy end_response resp_text ''No Response''))
                            s2))))"

text \<open>
  \<open>play_all_games\<close>, one ticket. The end of the loop body: the wait before the next
  ticket, for every ticket but the last.
\<close>

definition wait_next_main :: "env \<Rightarrow> int \<Rightarrow> int \<Rightarrow> state \<Rightarrow> state" where
  "wait_next_main e tickets_available i s =
     (if i < tickets_available - 1
      then (case randint e 15 25 s of
              (sleep_duration, s1) \<Rightarrow>
                time_sleep sleep_duration (print_info (M_WaitingNext sleep_duration) s1))
      else s)"

text \<open>
  From \<open>if start_response and start_response.status_code in [200, 201]\<close> on: the game is
  played and ended, or the ticket is skipped (\<open>continue\<close>, so without the wait).
\<close>

definition finish_ticket_main ::
  "env \<Rightarrow> int \<Rightarrow> int \<Rightarrow> response option \<Rightarrow> state \<Rightarrow> (exc + unit) \<times> state" where
  "finish_ticket_main e tickets_available i start_response s =
     (if truthy_and start_response (\<lambda>r. status_code r = 200 \<or> status_code r = 201) then
        (case randint e 90 110 (time_sleep 30 (print_info M_GameStarted s)) of
           (points, s1) \<Rightarrow>
             (case randint e 1 4 s1 of
                (coin, s2) \<Rightarrow>
                  (case randint e 0 4 s2 of
                     (ticket, s3) \<Rightarrow>
                       andthen
                         (send_request e POST API_game_end
                            (Some (JObj [(''overPoints'', JNum points),
                               (''collectedItems'',
                                JArr [JObj [(''type'', JStr ''coin''), (''count'', JNum coin)],
                                      JObj [(''type'', JStr ''ticket''), (''count'', JNum ticket)]])]))
                            3 3 (print_info (M_EndingGame points) s3))
                         (\<lambda>ignored s4.
                            (Inr (),
                             wait_next_main e tickets_available i
                               (print_success M_GameFinished s4))))))
      else
        (Inr (),
         print_warning M_SkippingTicket
           (print_error
              (M_CouldNotStart (if_truthy start_response (\<lambda>r. Some (status_code r)) None)
                 (if_truthy start_response resp_text ''No Response'')) s)))"

text \<open>The whole loop body: the start request, the stuck-game branch, then the above.\<close>

definition play_ticket_main :: "env \<Rightarrow> int \<Rightarrow> int \<Rightarrow> state \<Rightarrow> (exc + unit) \<times> state" where
  "play_ticket_main e tickets_available i s =
     andthen
       (send_request e POST API_game_start None 3 3
          (print_plain (M_PlayingTicket (i + 1) tickets_available) s))
       (\<lambda>start_response s1.
          case start_response of
            None \<Rightarrow> finish_ticket_main e tickets_available i start_response s1
          | Some r \<Rightarrow>
              if response_ok r \<and> status_code r = 400 \<and> str_in ''active game'' (resp_text r) then
                andthen (handle_stuck_game_main e (resp_text r) (print_warning M_StuckDetected s1))
                  (\<lambda>healed s2.
                     if healed then
                       andthen
                         (send_request e POST API_game_start None 3 3
                            (time_sleep 10 (print_info M_SelfHealOk s2)))
                         (finish_ticket_main e tickets_available i)
                     else (Inr (), print_error M_SelfHealFailed s2))
              else finish_ticket_main e tickets_available i start_response s1)"

fun play_tickets_main :: "env \<Rightarrow> int \<Rightarrow> int list \<Rightarrow> state \<Rightarrow> (exc + unit) \<times> state" where
  "play_tickets_main e tickets_available [] s = (Inr (), s)"
| "play_tickets_main e tickets_available (i # rest) s =
     andthen (play_ticket_main e tickets_available i s)
       (\<lambda>done. play_tickets_main e tickets_available rest)"

text \<open>
  \<open>play_all_games(tickets_available)\<close>, on the value \<open>main\<close> read from the stats:
  \<open>range\<close> raises \<open>TypeError\<close> on what is not an integer.
\<close>

definition play_all_games_main :: "env \<Rightarrow> json \<Rightarrow> state \<Rightarrow> (exc + unit) \<times> state" where
  "play_all_games_main e tickets_available s =
     (if py_eq_zero tickets_available then (Inr (), print_info M_NoTickets s)
      else
        (case py_index tickets_available of
           None \<Rightarrow> (Inl TypeError, print_info (M_StartingSequence tickets_available) s)
         | Some n \<Rightarrow>
             andthen
               (play_tickets_main e n (map int [0..<nat n])
                  (print_info (M_StartingSequence tickets_available) s))
               (\<lambda>done s1. (Inr (), print_success M_SequenceFinished s1))))"

text \<open>\<open>print_summary\<close>: the three gains are computed before the table is printed.\<close>

definition print_summary :: "json option \<Rightarrow> json option \<Rightarrow> state \<Rightarrow> (exc + unit) \<times> state" where
  "print_summary initial_stats final_stats s =
     (if \<not> opt_bool initial_stats \<or> \<not> opt_bool final_stats
      then (Inr (), print_warning M_SummaryIncomplete (print_plain M_SummaryHeader s))
      else
        (case (initial_stats, final_stats) of
           (Some (JObj i), Some (JObj f)) \<Rightarrow>
             (case py_sub (dict_get f ''overPoints'' (JNum 0)) (dict_get i ''overPoints'' (JNum 0)) of
                Inl x \<Rightarrow> (Inl x, print_plain M_SummaryHeader s)
              | Inr points_gain \<Rightarrow>
             (case py_sub (dict_get f ''coins'' (JNum 0)) (dict_get i ''coins'' (JNum 0)) of
                Inl x \<Rightarrow> (Inl x, print_plain M_SummaryHeader s)
              | Inr coins_gain \<Rightarrow>
             (case py_sub (dict_get f ''tickets'' (JNum 0)) (dict_get i ''tickets'' (JNum 0)) of
                Inl x \<Rightarrow> (Inl x, print_plain M_SummaryHeader s)
              | Inr tickets_gain \<Rightarrow>
                 (Inr (),
                  print_plain M_SummaryFooter
                    (print_plain
                       (M_SummaryRow ''Tickets'' (dict_get i ''tickets'' (JNum 0))
                          (dict_get f ''tickets'' (JNum 0)) tickets_gain)
                    (print_plain
                       (M_SummaryRow ''Coins'' (dict_get i ''coins'' (JNum 0))
                          (dict_get f ''coins'' (JNum 0)) coins_gain)
                    (print_plain
                       (M_SummaryRow ''Points'' (dict_get i ''overPoints'' (JNum 0))
                          (dict_get f ''overPoints'' (JNum 0)) points_gain)
                    (print_plain M_SummaryRule
                    (print_plain M_SummaryColumns
                    (print_plain M_SummaryHeader s))))))))))
         | _ \<Rightarrow> (Inl AttributeError, print_plain M_SummaryHeader s)))"

text \<open>\<open>main\<close>. \<open>if not initial_stats\<close> is true on \<open>None\<close> and on an empty dict.\<close>

definition main_main :: "env \<Rightarrow> state \<Rightarrow> (exc + unit) \<times> state" where
  "main_main e s =
     andthen (fetch_account_stats_main e (print_plain M_BotStarted s))
       (\<lambda>initial_stats s1.
          if \<not> opt_bool initial_stats
          then (Inl (SystemExit (Some 1)), print_error M_CouldNotFetchInitial s1)
          else
            (case initial_stats of
               Some (JObj d) \<Rightarrow>
                 andthen
                   (play_all_games_main e (dict_get d ''tickets'' (JNum 0))
                      (print_info (M_Welcome (dict_get d ''username'' (JStr ''User''))) s1))
                   (\<lambda>done s2.
                      andthen
                        (fetch_account_stats_main e
                           (time_sleep 5 (print_info M_AllTasksComplete s2)))
                        (\<lambda>final_stats s3.
                           andthen (print_summary initial_stats final_stats s3)
                             (\<lambda>done s4. (Inr (), print_plain M_ScriptFinished s4))))
             | _ \<Rightarrow> (Inl AttributeError, s1)))"

section \<open>overnads.py\<close>

definition logging_info :: "o_msg \<Rightarrow> state \<Rightarrow> state" where
  "logging_info m s = emit (Logging INFO m) s"

definition logging_warning :: "o_msg \<Rightarrow> state \<Rightarrow> state" where
  "logging_warning m s = emit (Logging WARNING m) s"

definition logging_error :: "o_msg \<Rightarrow> state \<Rightarrow> state" where
  "logging_error m s = emit (Logging ERROR m) s"

text \<open>
  \<open>send_telegram_message\<close>: nothing without the Telegram configuration; otherwise one post,
  whose response is ignored and whose exception is logged.
\<close>

definition send_telegram_message :: "env \<Rightarrow> tg_msg \<Rightarrow> state \<Rightarrow> state" where
  "send_telegram_message e message s =
     (if \<not> telegram_enabled e then s
      else let s1 = emit (Telegram message) (s\<lparr>tg_calls := Suc (tg_calls s)\<rparr>)
           in if tg_raises e (tg_calls s) then logging_error O_TelegramFailed s1 else s1)"

text \<open>
  \<open>send_request_with_retry\<close>: a POST carries the payload, any other method is a GET
  without it. The delay after the failed attempt \<open>i\<close> is \<open>backoff_factor * (i + 1)\<close>.
\<close>

fun send_request_with_retry_attempts ::
  "env \<Rightarrow> string \<Rightarrow> http_method \<Rightarrow> json option \<Rightarrow> int \<Rightarrow> int \<Rightarrow> int list \<Rightarrow> state
   \<Rightarrow> (exc + response option) \<times> state" where
  "send_request_with_retry_attempts e url method payload retries backoff_factor [] s =
     (Inr None, logging_error (O_RequestFailed retries url) s)"
| "send_request_with_retry_attempts e url method payload retries backoff_factor (i # rest) s =
     (case (if method = POST then http_request e POST url payload s
            else http_request e GET url None s) of
        (Replied r, s1) \<Rightarrow>
          if status_code r = 401
          then (Inl (SystemExit None),
                send_telegram_message e TG_AuthExpired (logging_error O_AuthExpired s1))
          else if status_code r < 500 then (Inr (Some r), s1)
          else send_request_with_retry_attempts e url method payload retries backoff_factor rest
                 (time_sleep (backoff_factor * (i + 1))
                   (logging_warning (O_ServerError (status_code r) (backoff_factor * (i + 1))) s1))
      | (RequestException, s1) \<Rightarrow>
          send_request_with_retry_attempts e url method payload retries backoff_factor rest
            (time_sleep (backoff_factor * (i + 1))
              (logging_error (O_NetworkError (backoff_factor * (i + 1))) s1)))"

definition send_request_with_retry ::
  "env \<Rightarrow> string \<Rightarrow> http_method \<Rightarrow> json option \<Rightarrow> int \<Rightarrow> int \<Rightarrow> state
   \<Rightarrow> (exc + response option) \<times> state" where
  "send_request_with_retry e url method payload retries backoff_factor s =
     send_request_with_retry_attempts e url method payload retries backoff_factor
       (map int [0..<nat retries]) s"

text \<open>
  \<open>fetch_account_stats\<close>: \<open>json()\<close> is called outside any handler, and the decoded
  document is stored in the global before the logged line reads it as a dict.
\<close>

definition fetch_account_stats_overnads :: "env \<Rightarrow> state \<Rightarrow> (exc + bool) \<times> state" where
  "fetch_account_stats_overnads e s =
     andthen (send_request_with_retry e API_user_profile GET None 3 3 (logging_info O_Fetching s))
       (\<lambda>response s1.
          if truthy_and response (\<lambda>r. status_code r = 200) then
            (case if_truthy response resp_json None of
               None \<Rightarrow> (Inl JSONDecodeError, s1)
             | Some stats \<Rightarrow>
                 (case stats of
                    JObj d \<Rightarrow>
                      (Inr True,
                       logging_info
                         (O_StatsUpdated (dict_get d ''overPoints'' (JNum 0))
                            (dict_get d ''coins'' (JNum 0)) (dict_get d ''tickets'' (JNum 0)))
                         (s1\<lparr>account_stats := stats\<rparr>))
                  | _ \<Rightarrow> (Inl AttributeError, s1\<lparr>account_stats := stats\<rparr>)))
          else (Inr False, s1))"

text \<open>
  \<open>handle_stuck_game\<close>, on the error response. Its handler catches \<open>JSONDecodeError\<close>
  only: \<open>get\<close> on a document that is not a dict, and \<open>re.search\<close> on an \<open>error\<close> entry that
  is not a string, raise through it.
\<close>

definition handle_stuck_game_overnads ::
  "env \<Rightarrow> response \<Rightarrow> state \<Rightarrow> (exc + bool) \<times> state" where
  "handle_stuck_game_overnads e error_response s =
     (case resp_json error_response of
        None \<Rightarrow> (Inr False, logging_error O_CouldNotParseJson s)
      | Some error_json \<Rightarrow>
          (case py_get error_json ''error'' (JStr []) of
             Inl x \<Rightarrow> (Inl x, s)
           | Inr (JStr error_message) \<Rightarrow>
               (case re_search_game_id error_message of
                  None \<Rightarrow> (Inr False, logging_error O_CouldNotParseId s)
                | Some stuck_game_id \<Rightarrow>
                    (case randint e 90 110 (logging_info (O_FoundStuck stuck_game_id) s) of
                       (points, s1) \<Rightarrow>
                         andthen
                           (send_request_with_retry e API_game_end POST
                              (Some (JObj [(''gameId'', JStr stuck_game_id),
                                           (''overPoints'', JNum points),
                                           (''collectedItems'', JArr [])])) 3 3 s1)
                           (\<lambda>end_response s2.
                              if truthy_and end_response
                                   (\<lambda>r. status_code r = 200 \<or> status_code r = 201)
                              then (Inr True, logging_info O_Cleared s2)
                              else (Inr False,
                                    logging_error
                                      (O_FailedToClear
                                         (if_truthy end_response resp_text ''No Response''))
                                      s2))))
           | Inr other \<Rightarrow> (Inl TypeError, s)))"

text \<open>\<open>play_all_games\<close>, one ticket: the wait that ends every iteration but the last.\<close>

definition wait_next_overnads :: "env \<Rightarrow> int \<Rightarrow> int \<Rightarrow> state \<Rightarrow> state" where
  "wait_next_overnads e initial_tickets i s =
     (if i < initial_tickets - 1
      then (case randint e 15 20 s of
              (sleep_duration, s1) \<Rightarrow>
                time_sleep sleep_duration (logging_info (O_WaitingNext sleep_duration) s1))
      else s)"

text \<open>
  States 2 and 3 of the loop body and the wait; the result is the new value of
  \<open>games_played_successfully\<close>.
\<close>

definition finish_ticket_overnads ::
  "env \<Rightarrow> int \<Rightarrow> int \<Rightarrow> int \<Rightarrow> response option \<Rightarrow> state \<Rightarrow> (exc + int) \<times> state" where
  "finish_ticket_overnads e initial_tickets i games_played_successfully start_response s =
     (if truthy_and start_response (\<lambda>r. status_code r = 200 \<or> status_code r = 201) then
        (case randint e 90 110 (time_sleep 30 (logging_info O_GameStarted s)) of
           (points, s1) \<Rightarrow>
             (case randint e 1 4 s1 of
                (coins, s2) \<Rightarrow>
                  (case randint e 0 4 s2 of
                     (tickets, s3) \<Rightarrow>
                       andthen
                         (send_request_with_retry e API_game_end POST
                            (Some (JObj [(''overPoints'', JNum points),
                               (''collectedItems'',
                                JArr [JObj [(''type'', JStr ''coin''), (''count'', JNum coins)],
                                      JObj [(''type'', JStr ''ticket''), (''count'', JNum tickets)]])]))
                            3 3
                            (logging_info
                               (O_EndingGame (JObj [(''overPoints'', JNum points),
                                  (''collectedItems'',
                                   JArr [JObj [(''type'', JStr ''coin''), (''count'', JNum coins)],
                                         JObj [(''type'', JStr ''ticket''),
                                               (''count'', JNum tickets)]])])) s3))
                         (\<lambda>ignored s4.
                            (Inr (games_played_successfully + 1),
                             wait_next_overnads e initial_tickets i s4)))))
      else
        (Inr games_played_successfully,
         wait_next_overnads e initial_tickets i
           (send_telegram_message e TG_CouldNotStart
              (logging_warning O_SkippingTicket
                 (case start_response of
                    Some r \<Rightarrow> logging_error (O_CouldNotStart (status_code r) (resp_text r)) s
                  | None \<Rightarrow> logging_error O_CouldNotSend s)))))"

text \<open>The whole loop body: the start request, state 1 (the stuck game), then the above.\<close>

definition play_ticket_overnads ::
  "env \<Rightarrow> int \<Rightarrow> int \<Rightarrow> int \<Rightarrow> state \<Rightarrow> (exc + int) \<times> state" where
  "play_ticket_overnads e initial_tickets i games_played_successfully s =
     andthen
       (send_request_with_retry e API_game_start POST None 3 3
          (logging_info (O_Attempting (i + 1) initial_tickets) (logging_info O_Rule s)))
       (\<lambda>start_response s1.
          case start_response of
            None \<Rightarrow>
              finish_ticket_overnads e initial_tickets i games_played_successfully
                start_response s1
          | Some r \<Rightarrow>
              if response_ok r \<and> status_code r = 400
                 \<and> str_in ''You already have an active game'' (resp_text r) then
                andthen
                  (handle_stuck_game_overnads e r
                     (send_telegram_message e TG_StuckDetected
                        (logging_warning O_StuckDetected s1)))
                  (\<lambda>healed s2.
                     if healed then
                       andthen
                         (send_request_with_retry e API_game_start POST None 3 3
                            (time_sleep 10 (logging_info O_SelfHealOk s2)))
                         (finish_ticket_overnads e initial_tickets i games_played_successfully)
                     else
                       (Inr games_played_successfully,
                        send_telegram_message e TG_SelfHealFailed
                          (logging_error O_SelfHealFailed s2)))
              else
                finish_ticket_overnads e initial_tickets i games_played_successfully
                  start_response s1)"

fun play_tickets_overnads ::
  "env \<Rightarrow> int \<Rightarrow> int list \<Rightarrow> int \<Rightarrow> state \<Rightarrow> (exc + int) \<times> state" where
  "play_tickets_overnads e initial_tickets [] games_played_successfully s =
     (Inr games_played_successfully, s)"
| "play_tickets_overnads e initial_tickets (i # rest) games_played_successfully s =
     andthen (play_ticket_overnads e initial_tickets i games_played_successfully s)
       (play_tickets_overnads e initial_tickets rest)"

text \<open>\<open>play_all_games()\<close>, which reads the ticket count from the global.\<close>

definition play_all_games_overnads :: "env \<Rightarrow> state \<Rightarrow> (exc + unit) \<times> state" where
  "play_all_games_overnads e s =
     (case py_get (account_stats s) ''tickets'' (JNum 0) of
        Inl x \<Rightarrow> (Inl x, s)
      | Inr initial_tickets \<Rightarrow>
          if py_eq_zero initial_tickets then (Inr (), logging_info O_NoTickets s)
          else
            (case py_index initial_tickets of
               None \<Rightarrow> (Inl TypeError, logging_info (O_StartingSequence initial_tickets) s)
             | Some n \<Rightarrow>
                 andthen
                   (play_tickets_overnads e n (map int [0..<nat n]) 0
                      (logging_info (O_StartingSequence initial_tickets) s))
                   (\<lambda>games_played_successfully s1.
                      (Inr (), logging_info (O_SequenceFinished games_played_successfully) s1))))"

text \<open>The script body under \<open>if __name__ == "__main__"\<close>.\<close>

definition overnads_main :: "env \<Rightarrow> state \<Rightarrow> (exc + unit) \<times> state" where
  "overnads_main e s =
     andthen
       (fetch_account_stats_overnads e
          (send_telegram_message e TG_BotStarted (logging_info O_BotStarted s)))
       (\<lambda>fetched s1.
          if \<not> fetched
          then (Inl (SystemExit None), logging_error O_CouldNotFetchInitial s1)
          else
            (case account_stats s1 of
               JObj d \<Rightarrow>
                 andthen
                   (play_all_games_overnads e
                      (send_telegram_message e
                         (TG_Welcome (dict_get d ''username'' (JStr ''N/A''))
                            (dict_get d ''overPoints'' (JNum 0)) (dict_get d ''coins'' (JNum 0))
                            (dict_get d ''tickets'' (JNum 0))) s1))
                   (\<lambda>done s2.
                      andthen
                        (fetch_account_stats_overnads e
                           (time_sleep 5 (logging_info O_AllTasksComplete s2)))
                        (\<lambda>ignored s3.
                           (case account_stats s3 of
                              JObj f \<Rightarrow>
                                (Inr (),
                                 logging_info O_ScriptFinished
                                   (send_telegram_message e
                                      (TG_RunComplete (dict_get f ''overPoints'' (JNum 0))
                                         (dict_get f ''coins'' (JNum 0))
                                         (dict_get f ''tickets'' (JNum 0))) s3))
                            | _ \<Rightarrow> (Inl AttributeError, s3))))
             | _ \<Rightarrow> (Inl AttributeError, s1)))"

section \<open>Notions used in the statements\<close>

text \<open>An outcome after which the executor tries again: a status from 500 on, or an exception.\<close>

definition retryable :: "outcome \<Rightarrow> bool" where
  "retryable out = (case out of Replied r \<Rightarrow> 500 \<le> status_code r | RequestException \<Rightarrow> True)"

text \<open>The printed and logged lines of a trace, and what is left without them.\<close>

definition is_line :: "event \<Rightarrow> bool" where
  "is_line ev = (case ev of Print l m \<Rightarrow> True | Logging l m \<Rightarrow> True | _ \<Rightarrow> False)"

definition actions :: "event list \<Rightarrow> event list" where
  "actions evs = filter (\<lambda>ev. \<not> is_line ev) evs"

text \<open>The request \<open>send_request_with_retry\<close> makes for a method, a URL and a payload.\<close>

definition request_of :: "http_method \<Rightarrow> string \<Rightarrow> json option \<Rightarrow> event" where
  "request_of method url payload =
     (if method = POST then Request POST url payload else Request GET url None)"

text \<open>A server that answers 503 to everything, without Telegram configuration.\<close>

definition env_down :: env where
  "env_down =
     \<lparr>net = (\<lambda>k. Replied \<lparr>status_code = 503, resp_text = ''Service Unavailable'',
                              resp_json = None\<rparr>),
      tg_raises = (\<lambda>k. False), rand = (\<lambda>k. k), telegram_enabled = False\<rparr>"

text \<open>A server that answers 503 to the first request and 404 to all later ones.\<close>

definition env_flaky :: env where
  "env_flaky =
     \<lparr>net = (\<lambda>k. if k = 0
                  then Replied \<lparr>status_code = 503, resp_text = ''Service Unavailable'',
                                 resp_json = None\<rparr>
                  else Replied \<lparr>status_code = 404, resp_text = ''Not Found'',
                                 resp_json = None\<rparr>),
      tg_raises = (\<lambda>k. False), rand = (\<lambda>k. k), telegram_enabled = False\<rparr>"

text \<open>The requests to the game API among the events.\<close>

definition is_request :: "event \<Rightarrow> bool" where
  "is_request ev = (case ev of Request m u p \<Rightarrow> True | _ \<Rightarrow> False)"

text \<open>
  A server that answers 200 with an empty JSON object to everything, and a conflict
  response as the server words it, once as plain text and once as a JSON body.
\<close>

definition ok_response :: response where
  "ok_response = \<lparr>status_code = 200, resp_text = ''{}'', resp_json = Some (JObj [])\<rparr>"

definition env_ok :: env where
  "env_ok = \<lparr>net = (\<lambda>k. Replied ok_response), tg_raises = (\<lambda>k. False), rand = (\<lambda>k. k),
              telegram_enabled = False\<rparr>"

definition conflict_text :: string where
  "conflict_text = ''You already have an active game. Game ID: abc12345-0000-0000-0000-000000000000''"

definition quoted :: "string \<Rightarrow> string" where
  "quoted x = CHR 0x22 # x @ [CHR 0x22]"

definition conflict_response :: response where
  "conflict_response =
     \<lparr>status_code = 400,
      resp_text = ''{'' @ quoted ''error'' @ '': '' @ quoted conflict_text @ ''}'',
      resp_json = Some (JObj [(''error'', JStr conflict_text)])\<rparr>"





text \<open>
  The outcome that rejects the credential, and what a part of the program does about it:
  from the request counter \<open>c\<close> on, a request that is answered 401 is the last request
  made, and the part ends with an exception \<open>x\<close> and a trace that satisfy \<open>Q\<close>.
\<close>

definition is_401 :: "outcome \<Rightarrow> bool" where
  "is_401 out = (case out of Replied r \<Rightarrow> status_code r = 401 | RequestException \<Rightarrow> False)"

definition auth_stop ::
  "(exc \<Rightarrow> event list \<Rightarrow> bool) \<Rightarrow> env \<Rightarrow> nat \<Rightarrow> (exc + 'a) \<times> state \<Rightarrow> bool" where
  "auth_stop Q e c res =
     (c \<le> calls (snd res)
      \<and> (\<forall>k. c \<le> k \<and> k < calls (snd res) \<and> is_401 (net e k) \<longrightarrow>
            Suc k = calls (snd res) \<and> (\<exists>x. fst res = Inl x \<and> Q x (trace (snd res)))))"

text \<open>How main.py ends: exit code 1, right after the critical line.\<close>

definition exit_main :: "exc \<Rightarrow> event list \<Rightarrow> bool" where
  "exit_main x tr =
     (x = SystemExit (Some 1)
      \<and> (\<exists>tr0 m u p. tr = tr0 @ [Request m u p, Print ERROR M_AuthExpired]))"

text \<open>
  How overnads.py ends: \<open>exit()\<close>, after the critical line and, with a Telegram
  configuration, one post to Telegram (and the line that reports its failure).
\<close>

definition exit_overnads :: "env \<Rightarrow> exc \<Rightarrow> event list \<Rightarrow> bool" where
  "exit_overnads e x tr =
     (x = SystemExit None
      \<and> (\<exists>tr0 m u p tail.
            tr = tr0 @ [Request m u p, Logging ERROR O_AuthExpired] @ tail
            \<and> (if telegram_enabled e
                then tail = [Telegram TG_AuthExpired]
                     \<or> tail = [Telegram TG_AuthExpired, Logging ERROR O_TelegramFailed]
                else tail = [])))"

text \<open>A server that rejects the credential, at a bot with a Telegram configuration.\<close>

definition unauthorized_response :: response where
  "unauthorized_response =
     \<lparr>status_code = 401, resp_text = ''Unauthorized'', resp_json = None\<rparr>"

definition env_expired_telegram :: env where
  "env_expired_telegram =
     \<lparr>net = (\<lambda>k. Replied unauthorized_response), tg_raises = (\<lambda>k. False), rand = (\<lambda>k. k),
      telegram_enabled = True\<rparr>"


text \<open>A part of the program only adds to the trace: the events \<open>tr\<close> stay at its front.\<close>

definition keeps_trace :: "event list \<Rightarrow> (exc + 'a) \<times> state \<Rightarrow> bool" where
  "keeps_trace tr res = (take (length tr) (trace (snd res)) = tr)"

text \<open>
  A stats field of two tickets, and the states of a run over two tickets at a server that
  answers 200 to every request: after the first ticket has been played, and once the start
  request of the second ticket has been answered.
\<close>

definition two_tickets :: state where
  "two_tickets = init\<lparr>account_stats := JObj [(''tickets'', JNum 2)]\<rparr>"

definition first_played_main :: state where
  "first_played_main =
     \<lparr>calls = 2, tg_calls = 0, draws = 4,
      trace =
        [Print INFO (M_StartingSequence (JNum 2)), Print PLAIN (M_PlayingTicket 1 2),
         Request POST API_game_start None,
         Print INFO M_GameStarted, Sleep 30, Print INFO (M_EndingGame 90),
         Request POST API_game_end
           (Some (JObj [(''overPoints'', JNum 90),
                   (''collectedItems'',
                    JArr [JObj [(''type'', JStr ''coin''), (''count'', JNum 2)],
                          JObj [(''type'', JStr ''ticket''), (''count'', JNum 2)]])])),
         Print SUCCESS M_GameFinished, Print INFO (M_WaitingNext 18), Sleep 18],
      account_stats = JObj []\<rparr>"

definition second_started_main :: state where
  "second_started_main =
     first_played_main
       \<lparr>calls := 3,
        trace := trace first_played_main @
          [Print PLAIN (M_PlayingTicket 2 2), Request POST API_game_start None]\<rparr>"

definition first_played_overnads :: state where
  "first_played_overnads =
     \<lparr>calls = 2, tg_calls = 0, draws = 4,
      trace =
        [Logging INFO (O_StartingSequence (JNum 2)), Logging INFO O_Rule,
         Logging INFO (O_Attempting 1 2),
         Request POST API_game_start None,
         Logging INFO O_GameStarted, Sleep 30,
         Logging INFO (O_EndingGame (JObj [(''overPoints'', JNum 90),
                   (''collectedItems'',
                    JArr [JObj [(''type'', JStr ''coin''), (''count'', JNum 2)],
                          JObj [(''type'', JStr ''ticket''), (''count'', JNum 2)]])])),
         Request POST API_game_end
           (Some (JObj [(''overPoints'', JNum 90),
                   (''collectedItems'',
                    JArr [JObj [(''type'', JStr ''coin''), (''count'', JNum 2)],
                          JObj [(''type'', JStr ''ticket''), (''count'', JNum 2)]])])),
         Logging INFO (O_WaitingNext 18), Sleep 18],
      account_stats = JObj [(''tickets'', JNum 2)]\<rparr>"

definition second_started_overnads :: state where
  "second_started_overnads =
     first_played_overnads
       \<lparr>calls := 3,
        trace := trace first_played_overnads @
          [Logging INFO O_Rule, Logging INFO (O_Attempting 2 2),
           Request POST API_game_start None]\<rparr>"

section \<open>Auxiliary facts\<close>

lemmas io_defs = emit_def time_sleep_def print_plain_def print_info_def print_success_def
  print_warning_def print_error_def logging_info_def logging_warning_def logging_error_def
  http_request_def

lemma actions_simps [simp]:
  "actions [] = []"
  "actions (Request m u p # evs) = Request m u p # actions evs"
  "actions (Sleep d # evs) = Sleep d # actions evs"
  "actions (Telegram t # evs) = Telegram t # actions evs"
  "actions (Print l x # evs) = actions evs"
  "actions (Logging l y # evs) = actions evs"
  "actions (evs @ evs') = actions evs @ actions evs'"
  by (simp_all add: actions_def is_line_def)

lemma retryable_Replied [simp]: "retryable (Replied r) = (500 \<le> status_code r)"
  by (simp add: retryable_def)

lemma retryable_exc [simp]: "retryable RequestException"
  by (simp add: retryable_def)


lemma calls_send_telegram_message [simp]:
  "calls (send_telegram_message e t s) = calls s"
  by (simp add: send_telegram_message_def Let_def io_defs)

lemma andthen_simps [simp]:
  "andthen (Inl x, s) f = (Inl x, s)"
  "andthen (Inr v, s) f = f v s"
  by (simp_all add: andthen_def)

lemma is_request_simps [simp]:
  "is_request (Request m u p)"
  "\<not> is_request (Sleep d)"
  "\<not> is_request (Telegram t)"
  "\<not> is_request (Print l x)"
  "\<not> is_request (Logging l y)"
  by (simp_all add: is_request_def)

lemma three_attempts:
  "map int [0..<nat 3] = [0, 1, 2]"
  "map int [0..<3] = [0, 1, 2]"
  by (simp_all add: upt_rec)

lemma randint_range:
  assumes "a \<le> b"
  shows "a \<le> fst (randint e a b s) \<and> fst (randint e a b s) \<le> b"
proof -
  have "0 < nat (b - a + 1)" using assms by simp
  then have "rand e (draws s) mod nat (b - a + 1) < nat (b - a + 1)" by simp
  then have "int (rand e (draws s) mod nat (b - a + 1)) < int (nat (b - a + 1))"
    by (simp only: of_nat_less_iff)
  then have "int (rand e (draws s) mod nat (b - a + 1)) < b - a + 1"
    using assms by simp
  then show ?thesis by (simp add: randint_def)
qed

lemma randint_state [simp]:
  "trace (snd (randint e a b s)) = trace s"
  "calls (snd (randint e a b s)) = calls s"
  by (simp_all add: randint_def)

lemma truthy_and_started [simp]:
  "truthy_and None p = False"
  "truthy_and (Some r) (\<lambda>r. status_code r = 200 \<or> status_code r = 201)
     = (status_code r = 200 \<or> status_code r = 201)"
  by (auto simp: truthy_and_def if_truthy_def response_ok_def)

lemma wait_next_main_trace:
  "\<exists>w. trace (wait_next_main e n i s) = trace s @ w \<and> (\<forall>ev\<in>set w. \<not> is_request ev)"
  by (simp add: wait_next_main_def case_prod_beta io_defs)

lemma wait_next_overnads_trace:
  "\<exists>w. trace (wait_next_overnads e n i s) = trace s @ w \<and> (\<forall>ev\<in>set w. \<not> is_request ev)"
  by (simp add: wait_next_overnads_def case_prod_beta io_defs)

section \<open>The request executor\<close>

text \<open>
  A run of attempts that all get a retryable outcome: each makes its request, prints its
  warning and sleeps, and the loop goes on with the attempts that are left.
\<close>

lemma send_request_attempts_prefix:
  "(\<And>j. j < length pre \<Longrightarrow> retryable (net e (calls s + j))) \<Longrightarrow>
   \<exists>new. send_request_attempts e m u p R b (pre @ rest) s =
           send_request_attempts e m u p R b rest
             (s\<lparr>calls := calls s + length pre, trace := trace s @ new\<rparr>)
     \<and> actions new = concat (replicate (length pre) [Request m u p, Sleep b])"
proof (induction pre arbitrary: s)
  case Nil
  show ?case by (intro exI[of _ "[]"]) simp
next
  case (Cons i pre)
  have first: "retryable (net e (calls s))" using Cons.prems[of 0] by simp
  obtain line where step:
    "send_request_attempts e m u p R b ((i # pre) @ rest) s =
       send_request_attempts e m u p R b (pre @ rest)
         (s\<lparr>calls := Suc (calls s), trace := trace s @ [Request m u p, Print WARNING line, Sleep b]\<rparr>)"
  proof (cases "net e (calls s)")
    case (Replied r)
    with first have "500 \<le> status_code r" by simp
    with Replied have
      "send_request_attempts e m u p R b ((i # pre) @ rest) s =
       send_request_attempts e m u p R b (pre @ rest)
         (s\<lparr>calls := Suc (calls s),
            trace := trace s @ [Request m u p,
              Print WARNING (M_ServerError (status_code r) b (i + 1) R), Sleep b]\<rparr>)"
      by (simp add: io_defs)
    then show ?thesis by (rule that)
  next
    case RequestException
    then have
      "send_request_attempts e m u p R b ((i # pre) @ rest) s =
       send_request_attempts e m u p R b (pre @ rest)
         (s\<lparr>calls := Suc (calls s),
            trace := trace s @ [Request m u p,
              Print WARNING (M_NetworkError b (i + 1) R), Sleep b]\<rparr>)"
      by (simp add: io_defs)
    then show ?thesis by (rule that)
  qed
  let ?s1 = "s\<lparr>calls := Suc (calls s),
               trace := trace s @ [Request m u p, Print WARNING line, Sleep b]\<rparr>"
  have "\<And>j. j < length pre \<Longrightarrow> retryable (net e (calls ?s1 + j))"
    using Cons.prems[of "Suc _"] by simp
  from Cons.IH[OF this] obtain new where
    n: "send_request_attempts e m u p R b (pre @ rest) ?s1 =
          send_request_attempts e m u p R b rest
            (?s1\<lparr>calls := calls ?s1 + length pre, trace := trace ?s1 @ new\<rparr>)"
    and a: "actions new = concat (replicate (length pre) [Request m u p, Sleep b])"
    by blast
  have eq: "send_request_attempts e m u p R b ((i # pre) @ rest) s =
          send_request_attempts e m u p R b rest
            (?s1\<lparr>calls := calls ?s1 + length pre, trace := trace ?s1 @ new\<rparr>)"
    by (simp only: step n)
  show ?case
    unfolding eq
    by (intro exI[of _ "[Request m u p, Print WARNING line, Sleep b] @ new"]) (simp add: a)
qed

text \<open>The same for \<open>send_request_with_retry\<close>, whose delay grows with the attempt.\<close>

lemma send_request_with_retry_attempts_prefix:
  "(\<And>j. j < length pre \<Longrightarrow> retryable (net e (calls s + j))) \<Longrightarrow>
   \<exists>new. send_request_with_retry_attempts e u m p R b (pre @ rest) s =
           send_request_with_retry_attempts e u m p R b rest
             (s\<lparr>calls := calls s + length pre, trace := trace s @ new\<rparr>)
     \<and> actions new = concat (map (\<lambda>i. [request_of m u p, Sleep (b * (i + 1))]) pre)"
proof (induction pre arbitrary: s)
  case Nil
  show ?case by (intro exI[of _ "[]"]) simp
next
  case (Cons i pre)
  have first: "retryable (net e (calls s))" using Cons.prems[of 0] by simp
  obtain lvl line where step:
    "send_request_with_retry_attempts e u m p R b ((i # pre) @ rest) s =
       send_request_with_retry_attempts e u m p R b (pre @ rest)
         (s\<lparr>calls := Suc (calls s),
            trace := trace s @ [request_of m u p, Logging lvl line, Sleep (b * (i + 1))]\<rparr>)"
  proof (cases "net e (calls s)")
    case (Replied r)
    with first have "500 \<le> status_code r" by simp
    with Replied have
      "send_request_with_retry_attempts e u m p R b ((i # pre) @ rest) s =
       send_request_with_retry_attempts e u m p R b (pre @ rest)
         (s\<lparr>calls := Suc (calls s),
            trace := trace s @ [request_of m u p,
              Logging WARNING (O_ServerError (status_code r) (b * (i + 1))), Sleep (b * (i + 1))]\<rparr>)"
      by (simp add: io_defs request_of_def)
    then show ?thesis by (rule that)
  next
    case RequestException
    then have
      "send_request_with_retry_attempts e u m p R b ((i # pre) @ rest) s =
       send_request_with_retry_attempts e u m p R b (pre @ rest)
         (s\<lparr>calls := Suc (calls s),
            trace := trace s @ [request_of m u p,
              Logging ERROR (O_NetworkError (b * (i + 1))), Sleep (b * (i + 1))]\<rparr>)"
      by (simp add: io_defs request_of_def)
    then show ?thesis by (rule that)
  qed
  let ?s1 = "s\<lparr>calls := Suc (calls s),
               trace := trace s @ [request_of m u p, Logging lvl line, Sleep (b * (i + 1))]\<rparr>"
  have "\<And>j. j < length pre \<Longrightarrow> retryable (net e (calls ?s1 + j))"
    using Cons.prems[of "Suc _"] by simp
  from Cons.IH[OF this] obtain new where
    n: "send_request_with_retry_attempts e u m p R b (pre @ rest) ?s1 =
          send_request_with_retry_attempts e u m p R b rest
            (?s1\<lparr>calls := calls ?s1 + length pre, trace := trace ?s1 @ new\<rparr>)"
    and a: "actions new = concat (map (\<lambda>i. [request_of m u p, Sleep (b * (i + 1))]) pre)"
    by blast
  have eq: "send_request_with_retry_attempts e u m p R b ((i # pre) @ rest) s =
          send_request_with_retry_attempts e u m p R b rest
            (?s1\<lparr>calls := calls ?s1 + length pre, trace := trace ?s1 @ new\<rparr>)"
    by (simp only: step n)
  show ?case
    unfolding eq
    by (intro exI[of _ "[request_of m u p, Logging lvl line, Sleep (b * (i + 1))] @ new"])
       (simp add: a request_of_def)
qed

text \<open>Every request an executor makes is the request it was called for.\<close>

lemma send_request_attempts_requests:
  "\<exists>new. trace (snd (send_request_attempts e m u p R b is s)) = trace s @ new
     \<and> (\<forall>ev\<in>set new. is_request ev \<longrightarrow> ev = Request m u p)"
proof (induction "is" arbitrary: s)
  case Nil
  show ?case by (simp add: io_defs)
next
  case (Cons i rest)
  let ?s0 = "s\<lparr>calls := Suc (calls s), trace := trace s @ [Request m u p]\<rparr>"
  show ?case
  proof (cases "net e (calls s)")
    case (Replied r)
    show ?thesis
    proof (cases "status_code r = 401 \<or> status_code r < 500")
      case True
      with Replied show ?thesis by (auto simp: io_defs)
    next
      case False
      let ?s1 = "time_sleep b (print_warning (M_ServerError (status_code r) b (i + 1) R) ?s0)"
      have eq: "send_request_attempts e m u p R b (i # rest) s =
                  send_request_attempts e m u p R b rest ?s1"
        using False Replied by (simp add: io_defs)
      from Cons.IH[of ?s1] obtain new where
        "trace (snd (send_request_attempts e m u p R b rest ?s1)) = trace ?s1 @ new"
        "\<forall>ev\<in>set new. is_request ev \<longrightarrow> ev = Request m u p" by blast
      then show ?thesis unfolding eq
        by (intro exI[of _ "[Request m u p,
              Print WARNING (M_ServerError (status_code r) b (i + 1) R), Sleep b] @ new"])
           (simp add: io_defs)
    qed
  next
    case RequestException
    let ?s1 = "time_sleep b (print_warning (M_NetworkError b (i + 1) R) ?s0)"
    have eq: "send_request_attempts e m u p R b (i # rest) s =
                send_request_attempts e m u p R b rest ?s1"
      using RequestException by (simp add: io_defs)
    from Cons.IH[of ?s1] obtain new where
      "trace (snd (send_request_attempts e m u p R b rest ?s1)) = trace ?s1 @ new"
      "\<forall>ev\<in>set new. is_request ev \<longrightarrow> ev = Request m u p" by blast
    then show ?thesis unfolding eq
      by (intro exI[of _ "[Request m u p, Print WARNING (M_NetworkError b (i + 1) R), Sleep b] @ new"])
         (simp add: io_defs)
  qed
qed

lemma trace_send_telegram_message:
  "\<exists>new. trace (send_telegram_message e t s) = trace s @ new \<and> (\<forall>ev\<in>set new. \<not> is_request ev)"
  by (simp add: send_telegram_message_def Let_def io_defs)

lemma send_request_with_retry_attempts_requests:
  "\<exists>new. trace (snd (send_request_with_retry_attempts e u m p R b is s)) = trace s @ new
     \<and> (\<forall>ev\<in>set new. is_request ev \<longrightarrow> ev = request_of m u p)"
proof (induction "is" arbitrary: s)
  case Nil
  show ?case by (simp add: io_defs)
next
  case (Cons i rest)
  let ?s0 = "s\<lparr>calls := Suc (calls s), trace := trace s @ [request_of m u p]\<rparr>"
  show ?case
  proof (cases "net e (calls s)")
    case (Replied r)
    show ?thesis
    proof (cases "status_code r = 401 \<or> status_code r < 500")
      case True
      from trace_send_telegram_message[of e TG_AuthExpired "logging_error O_AuthExpired ?s0"]
      obtain tg where
        "trace (send_telegram_message e TG_AuthExpired (logging_error O_AuthExpired ?s0))
           = trace (logging_error O_AuthExpired ?s0) @ tg"
        "\<forall>ev\<in>set tg. \<not> is_request ev" by blast
      with True Replied show ?thesis
        by (intro exI[of _ "if status_code r = 401
              then [request_of m u p, Logging ERROR O_AuthExpired] @ tg else [request_of m u p]"])
           (auto simp: io_defs request_of_def)
    next
      case False
      let ?s1 = "time_sleep (b * (i + 1))
                   (logging_warning (O_ServerError (status_code r) (b * (i + 1))) ?s0)"
      have eq: "send_request_with_retry_attempts e u m p R b (i # rest) s =
                  send_request_with_retry_attempts e u m p R b rest ?s1"
        using False Replied by (simp add: io_defs request_of_def)
      from Cons.IH[of ?s1] obtain new where
        "trace (snd (send_request_with_retry_attempts e u m p R b rest ?s1)) = trace ?s1 @ new"
        "\<forall>ev\<in>set new. is_request ev \<longrightarrow> ev = request_of m u p" by blast
      then show ?thesis unfolding eq
        by (intro exI[of _ "[request_of m u p,
              Logging WARNING (O_ServerError (status_code r) (b * (i + 1))),
              Sleep (b * (i + 1))] @ new"])
           (simp add: io_defs)
    qed
  next
    case RequestException
    let ?s1 = "time_sleep (b * (i + 1)) (logging_error (O_NetworkError (b * (i + 1))) ?s0)"
    have eq: "send_request_with_retry_attempts e u m p R b (i # rest) s =
                send_request_with_retry_attempts e u m p R b rest ?s1"
      using RequestException by (simp add: io_defs request_of_def)
    from Cons.IH[of ?s1] obtain new where
      "trace (snd (send_request_with_retry_attempts e u m p R b rest ?s1)) = trace ?s1 @ new"
      "\<forall>ev\<in>set new. is_request ev \<longrightarrow> ev = request_of m u p" by blast
    then show ?thesis unfolding eq
      by (intro exI[of _ "[request_of m u p, Logging ERROR (O_NetworkError (b * (i + 1))),
            Sleep (b * (i + 1))] @ new"])
         (simp add: io_defs)
  qed
qed

text \<open>With the default three attempts the first request is always made.\<close>

lemma send_request_attempts_first:
  "\<exists>new. trace (snd (send_request_attempts e m u p R b (i # rest) s))
           = trace s @ Request m u p # new
     \<and> (\<forall>ev\<in>set new. is_request ev \<longrightarrow> ev = Request m u p)"
proof -
  let ?s0 = "s\<lparr>calls := Suc (calls s), trace := trace s @ [Request m u p]\<rparr>"
  show ?thesis
  proof (cases "net e (calls s)")
    case (Replied r)
    show ?thesis
    proof (cases "status_code r = 401 \<or> status_code r < 500")
      case True
      with Replied show ?thesis by (auto simp: io_defs)
    next
      case False
      let ?s1 = "time_sleep b (print_warning (M_ServerError (status_code r) b (i + 1) R) ?s0)"
      have eq: "send_request_attempts e m u p R b (i # rest) s =
                  send_request_attempts e m u p R b rest ?s1"
        using False Replied by (simp add: io_defs)
      from send_request_attempts_requests[of e m u p R b rest ?s1] obtain new where
        "trace (snd (send_request_attempts e m u p R b rest ?s1)) = trace ?s1 @ new"
        "\<forall>ev\<in>set new. is_request ev \<longrightarrow> ev = Request m u p" by blast
      then show ?thesis unfolding eq
        by (intro exI[of _ "[Print WARNING (M_ServerError (status_code r) b (i + 1) R),
              Sleep b] @ new"])
           (simp add: io_defs)
    qed
  next
    case RequestException
    let ?s1 = "time_sleep b (print_warning (M_NetworkError b (i + 1) R) ?s0)"
    have eq: "send_request_attempts e m u p R b (i # rest) s =
                send_request_attempts e m u p R b rest ?s1"
      using RequestException by (simp add: io_defs)
    from send_request_attempts_requests[of e m u p R b rest ?s1] obtain new where
      "trace (snd (send_request_attempts e m u p R b rest ?s1)) = trace ?s1 @ new"
      "\<forall>ev\<in>set new. is_request ev \<longrightarrow> ev = Request m u p" by blast
    then show ?thesis unfolding eq
      by (intro exI[of _ "[Print WARNING (M_NetworkError b (i + 1) R), Sleep b] @ new"])
         (simp add: io_defs)
  qed
qed

lemma send_request_with_retry_attempts_first:
  "\<exists>new. trace (snd (send_request_with_retry_attempts e u POST p R b (i # rest) s))
           = trace s @ Request POST u p # new
     \<and> (\<forall>ev\<in>set new. is_request ev \<longrightarrow> ev = Request POST u p)"
proof -
  let ?s0 = "s\<lparr>calls := Suc (calls s), trace := trace s @ [Request POST u p]\<rparr>"
  have ro: "request_of POST u p = Request POST u p" by (simp add: request_of_def)
  show ?thesis
  proof (cases "net e (calls s)")
    case (Replied r)
    show ?thesis
    proof (cases "status_code r = 401 \<or> status_code r < 500")
      case True
      from trace_send_telegram_message[of e TG_AuthExpired "logging_error O_AuthExpired ?s0"]
      obtain tg where
        "trace (send_telegram_message e TG_AuthExpired (logging_error O_AuthExpired ?s0))
           = trace (logging_error O_AuthExpired ?s0) @ tg"
        "\<forall>ev\<in>set tg. \<not> is_request ev" by blast
      with True Replied show ?thesis 
        by (intro exI[of _ "if status_code r = 401
              then [Logging ERROR O_AuthExpired] @ tg else []"])
           (auto simp: io_defs)
    next
      case False
      let ?s1 = "time_sleep (b * (i + 1))
                   (logging_warning (O_ServerError (status_code r) (b * (i + 1))) ?s0)"
      have eq: "send_request_with_retry_attempts e u POST p R b (i # rest) s =
                  send_request_with_retry_attempts e u POST p R b rest ?s1"
        using False Replied by (simp add: io_defs)
      from send_request_with_retry_attempts_requests[of e u POST p R b rest ?s1]
      obtain new where
        "trace (snd (send_request_with_retry_attempts e u POST p R b rest ?s1)) = trace ?s1 @ new"
        "\<forall>ev\<in>set new. is_request ev \<longrightarrow> ev = Request POST u p"
        unfolding ro by blast
      then show ?thesis unfolding eq
        by (intro exI[of _ "[Logging WARNING (O_ServerError (status_code r) (b * (i + 1))),
              Sleep (b * (i + 1))] @ new"])
           (simp add: io_defs)
    qed
  next
    case RequestException
    let ?s1 = "time_sleep (b * (i + 1)) (logging_error (O_NetworkError (b * (i + 1))) ?s0)"
    have eq: "send_request_with_retry_attempts e u POST p R b (i # rest) s =
                send_request_with_retry_attempts e u POST p R b rest ?s1"
      using RequestException by (simp add: io_defs)
    from send_request_with_retry_attempts_requests[of e u POST p R b rest ?s1]
    obtain new where
      "trace (snd (send_request_with_retry_attempts e u POST p R b rest ?s1)) = trace ?s1 @ new"
      "\<forall>ev\<in>set new. is_request ev \<longrightarrow> ev = Request POST u p"
      unfolding ro by blast
    then show ?thesis unfolding eq
      by (intro exI[of _ "[Logging ERROR (O_NetworkError (b * (i + 1))), Sleep (b * (i + 1))] @ new"])
         (simp add: io_defs)
  qed
qed

lemma send_request_first:
  "\<exists>new. trace (snd (send_request e m u p 3 b s)) = trace s @ Request m u p # new
     \<and> (\<forall>ev\<in>set new. is_request ev \<longrightarrow> ev = Request m u p)"
  unfolding send_request_def three_attempts by (rule send_request_attempts_first)

lemma send_request_with_retry_first:
  "\<exists>new. trace (snd (send_request_with_retry e u POST p 3 b s)) = trace s @ Request POST u p # new
     \<and> (\<forall>ev\<in>set new. is_request ev \<longrightarrow> ev = Request POST u p)"
  unfolding send_request_with_retry_def three_attempts
  by (rule send_request_with_retry_attempts_first)



lemma calls_wait_next [simp]:
  "calls (wait_next_main e n i s) = calls s"
  "calls (wait_next_overnads e n i s) = calls s"
  by (simp_all add: wait_next_main_def wait_next_overnads_def case_prod_beta io_defs)

lemma not_started:
  assumes "400 \<le> status_code r" 
  shows "\<not> truthy_and (Some r) (\<lambda>r. status_code r = 200 \<or> status_code r = 201)"
  using assms by simp

lemma upt_split:
  assumes "j < n"
  shows "[0..<n] = [0..<j] @ j # [Suc j..<n]"
proof -
  have "[0..<n] = [0..<j] @ [j..<n]"
    using assms upt_add_eq_append[of 0 j "n - j"] by simp
  also have "[j..<n] = j # [Suc j..<n]"
    using assms by (simp add: upt_conv_Cons)
  finally show ?thesis .
qed

lemma send_request_attempts_returned:
  assumes "\<And>k. k < length pre \<Longrightarrow> retryable (net e (calls s + k))"
    and "net e (calls s + length pre) = Replied r"
    and "status_code r < 500" and "status_code r \<noteq> 401"
  shows "\<exists>new. send_request_attempts e m u p R b (pre @ i # rest) s =
           (Inr (Some r), s\<lparr>calls := calls s + length pre + 1,
                             trace := trace s @ new @ [Request m u p]\<rparr>)
         \<and> actions new = concat (replicate (length pre) [Request m u p, Sleep b])"
proof -
  from send_request_attempts_prefix[where pre = pre and s = s and rest = "i # rest" and e = e
      and m = m and u = u and p = p and R = R and b = b, OF assms(1)]
  obtain new where
    n: "send_request_attempts e m u p R b (pre @ i # rest) s =
          send_request_attempts e m u p R b (i # rest)
            (s\<lparr>calls := calls s + length pre, trace := trace s @ new\<rparr>)"
    and a: "actions new = concat (replicate (length pre) [Request m u p, Sleep b])"
    by blast
  show ?thesis
    unfolding n using assms(2-4) a
    by (intro exI[of _ new]) (simp add: io_defs)
qed

lemma send_request_with_retry_attempts_returned:
  assumes "\<And>k. k < length pre \<Longrightarrow> retryable (net e (calls s + k))"
    and "net e (calls s + length pre) = Replied r"
    and "status_code r < 500" and "status_code r \<noteq> 401"
  shows "\<exists>new. send_request_with_retry_attempts e u m p R b (pre @ i # rest) s =
           (Inr (Some r), s\<lparr>calls := calls s + length pre + 1,
                             trace := trace s @ new @ [request_of m u p]\<rparr>)
         \<and> actions new = concat (map (\<lambda>i. [request_of m u p, Sleep (b * (i + 1))]) pre)"
proof -
  from send_request_with_retry_attempts_prefix[where pre = pre and s = s and rest = "i # rest"
      and e = e and m = m and u = u and p = p and R = R and b = b, OF assms(1)]
  obtain new where
    n: "send_request_with_retry_attempts e u m p R b (pre @ i # rest) s =
          send_request_with_retry_attempts e u m p R b (i # rest)
            (s\<lparr>calls := calls s + length pre, trace := trace s @ new\<rparr>)"
    and a: "actions new = concat (map (\<lambda>i. [request_of m u p, Sleep (b * (i + 1))]) pre)"
    by blast
  show ?thesis
    unfolding n using assms(2-4) a
    by (intro exI[of _ new]) (simp add: io_defs request_of_def)
qed

lemma send_request_attempts_only_retryable:
  "calls s \<le> calls (snd (send_request_attempts e m u p R b is s))
   \<and> (\<forall>k. calls s \<le> k \<and> Suc k < calls (snd (send_request_attempts e m u p R b is s))
          \<longrightarrow> retryable (net e k))"
proof (induction "is" arbitrary: s)
  case Nil
  show ?case by (auto simp: io_defs)
next
  case (Cons i rest)
  show ?case
  proof (cases "net e (calls s)")
    case (Replied r)
    show ?thesis
    proof (cases "status_code r = 401 \<or> status_code r < 500")
      case True
      with Replied show ?thesis by (auto simp: io_defs)
    next
      case False
      let ?s1 = "time_sleep b (print_warning (M_ServerError (status_code r) b (i + 1) R)
                   (snd (http_request e m u p s)))"
      have c: "calls ?s1 = Suc (calls s)" by (simp add: io_defs)
      have eq: "send_request_attempts e m u p R b (i # rest) s =
                  send_request_attempts e m u p R b rest ?s1"
        using False Replied by (simp add: http_request_def)
      have r0: "retryable (net e (calls s))" using False Replied by simp
      from Cons.IH[of ?s1] c r0 show ?thesis
        unfolding eq by (metis Suc_leI le_neq_implies_less Suc_leD)
    qed
  next
    case RequestException
    let ?s1 = "time_sleep b (print_warning (M_NetworkError b (i + 1) R)
                 (snd (http_request e m u p s)))"
    have c: "calls ?s1 = Suc (calls s)" by (simp add: io_defs)
    have eq: "send_request_attempts e m u p R b (i # rest) s =
                send_request_attempts e m u p R b rest ?s1"
      using RequestException by (simp add: http_request_def)
    have r0: "retryable (net e (calls s))" using RequestException by simp
    from Cons.IH[of ?s1] c r0 show ?thesis
      unfolding eq by (metis Suc_leI le_neq_implies_less Suc_leD)
  qed
qed


lemma send_request_with_retry_attempts_only_retryable:
  "calls s \<le> calls (snd (send_request_with_retry_attempts e u m p R b is s))
   \<and> (\<forall>k. calls s \<le> k \<and> Suc k < calls (snd (send_request_with_retry_attempts e u m p R b is s))
          \<longrightarrow> retryable (net e k))"
proof (induction "is" arbitrary: s)
  case Nil
  show ?case by (auto simp: io_defs)
next
  case (Cons i rest)
  let ?s0 = "s\<lparr>calls := Suc (calls s), trace := trace s @ [request_of m u p]\<rparr>"
  show ?case
  proof (cases "net e (calls s)")
    case (Replied r)
    show ?thesis
    proof (cases "status_code r = 401 \<or> status_code r < 500")
      case True
      with Replied show ?thesis by (auto simp: io_defs)
    next
      case False
      let ?s1 = "time_sleep (b * (i + 1))
                   (logging_warning (O_ServerError (status_code r) (b * (i + 1))) ?s0)"
      have c: "calls ?s1 = Suc (calls s)" by (simp add: io_defs)
      have eq: "send_request_with_retry_attempts e u m p R b (i # rest) s =
                  send_request_with_retry_attempts e u m p R b rest ?s1"
        using False Replied by (simp add: io_defs request_of_def)
      have r0: "retryable (net e (calls s))" using False Replied by simp
      from Cons.IH[of ?s1] c r0 show ?thesis
        unfolding eq by (metis Suc_leI le_neq_implies_less Suc_leD)
    qed
  next
    case RequestException
    let ?s1 = "time_sleep (b * (i + 1)) (logging_error (O_NetworkError (b * (i + 1))) ?s0)"
    have c: "calls ?s1 = Suc (calls s)" by (simp add: io_defs)
    have eq: "send_request_with_retry_attempts e u m p R b (i # rest) s =
                send_request_with_retry_attempts e u m p R b rest ?s1"
      using RequestException by (simp add: io_defs request_of_def)
    have r0: "retryable (net e (calls s))" using RequestException by simp
    from Cons.IH[of ?s1] c r0 show ?thesis
      unfolding eq by (metis Suc_leI le_neq_implies_less Suc_leD)
  qed
qed

text \<open>
  Claim C2. A response with a status below 500 other than 401 is returned by the attempt
  that received it, after which no further request is made; and whenever an attempt is
  followed by another one, its outcome was a status from 500 on or a network exception.
\<close>

theorem below_500_returned:
  "(j < nat retries \<and> (\<forall>k<j. retryable (net e (calls s + k)))
      \<and> net e (calls s + j) = Replied r \<and> status_code r < 500 \<and> status_code r \<noteq> 401
    \<longrightarrow> fst (send_request e method url payload retries backoff s) = Inr (Some r)
        \<and> calls (snd (send_request e method url payload retries backoff s)) = calls s + j + 1
        \<and> fst (send_request_with_retry e url method payload retries backoff s) = Inr (Some r)
        \<and> calls (snd (send_request_with_retry e url method payload retries backoff s))
            = calls s + j + 1)
   \<and> (\<forall>k. calls s \<le> k
            \<and> Suc k < calls (snd (send_request e method url payload retries backoff s))
          \<longrightarrow> retryable (net e k))
   \<and> (\<forall>k. calls s \<le> k
            \<and> Suc k < calls (snd (send_request_with_retry e url method payload retries backoff s))
          \<longrightarrow> retryable (net e k))"
proof (intro conjI impI)
  assume a: "j < nat retries \<and> (\<forall>k<j. retryable (net e (calls s + k)))
      \<and> net e (calls s + j) = Replied r \<and> status_code r < 500 \<and> status_code r \<noteq> 401"
  let ?pre = "map int [0..<j]"
  let ?rest = "map int [Suc j..<nat retries]"
  have split: "map int [0..<nat retries] = ?pre @ int j # ?rest"
    using a upt_split[of j "nat retries"] by simp
  have pre: "\<And>k. k < length ?pre \<Longrightarrow> retryable (net e (calls s + k))"
    using a by simp
  have at: "net e (calls s + length ?pre) = Replied r" using a by simp
  from a have st: "status_code r < 500" "status_code r \<noteq> 401" by simp_all
  have "\<exists>new. send_request_attempts e method url payload retries backoff
                 (?pre @ int j # ?rest) s =
           (Inr (Some r), s\<lparr>calls := calls s + length ?pre + 1,
                             trace := trace s @ new @ [Request method url payload]\<rparr>)
         \<and> actions new = concat (replicate (length ?pre) [Request method url payload, Sleep backoff])"
    using pre at st by (rule send_request_attempts_returned)
  then obtain new where
    "send_request e method url payload retries backoff s =
       (Inr (Some r), s\<lparr>calls := calls s + length ?pre + 1,
                         trace := trace s @ new @ [Request method url payload]\<rparr>)"
    unfolding send_request_def split by blast
  then show "fst (send_request e method url payload retries backoff s) = Inr (Some r)"
    and "calls (snd (send_request e method url payload retries backoff s)) = calls s + j + 1"
    by simp_all
  have "\<exists>new. send_request_with_retry_attempts e url method payload retries backoff
                 (?pre @ int j # ?rest) s =
           (Inr (Some r), s\<lparr>calls := calls s + length ?pre + 1,
                             trace := trace s @ new @ [request_of method url payload]\<rparr>)
         \<and> actions new =
             concat (map (\<lambda>i. [request_of method url payload, Sleep (backoff * (i + 1))]) ?pre)"
    using pre at st by (rule send_request_with_retry_attempts_returned)
  then obtain new' where
    "send_request_with_retry e url method payload retries backoff s =
       (Inr (Some r), s\<lparr>calls := calls s + length ?pre + 1,
                         trace := trace s @ new' @ [request_of method url payload]\<rparr>)"
    unfolding send_request_with_retry_def split by blast
  then show "fst (send_request_with_retry e url method payload retries backoff s) = Inr (Some r)"
    and "calls (snd (send_request_with_retry e url method payload retries backoff s))
           = calls s + j + 1"
    by simp_all
next
  show "\<forall>k. calls s \<le> k
            \<and> Suc k < calls (snd (send_request e method url payload retries backoff s))
          \<longrightarrow> retryable (net e k)"
    using send_request_attempts_only_retryable by (simp add: send_request_def)
next
  show "\<forall>k. calls s \<le> k
            \<and> Suc k < calls (snd (send_request_with_retry e url method payload retries backoff s))
          \<longrightarrow> retryable (net e k)"
    using send_request_with_retry_attempts_only_retryable
    by (simp add: send_request_with_retry_def)
qed

text \<open>The theorem at a server that answers 503, then 404: the 404 is returned by the second attempt.\<close>

theorem below_500_returned_witness:
  "retryable (net env_flaky (calls init + 0))
   \<and> status_code \<lparr>status_code = 404, resp_text = ''Not Found'', resp_json = None\<rparr> < 500
   \<and> fst (send_request env_flaky POST API_game_start None 3 3 init)
       = Inr (Some \<lparr>status_code = 404, resp_text = ''Not Found'', resp_json = None\<rparr>)
   \<and> calls (snd (send_request env_flaky POST API_game_start None 3 3 init)) = 2
   \<and> fst (send_request_with_retry env_flaky API_game_start POST None 3 3 init)
       = Inr (Some \<lparr>status_code = 404, resp_text = ''Not Found'', resp_json = None\<rparr>)
   \<and> calls (snd (send_request_with_retry env_flaky API_game_start POST None 3 3 init)) = 2"
proof -
  have h: "1 < nat 3 \<and> (\<forall>k<1. retryable (net env_flaky (calls init + k)))
      \<and> net env_flaky (calls init + 1)
          = Replied \<lparr>status_code = 404, resp_text = ''Not Found'', resp_json = None\<rparr>
      \<and> status_code \<lparr>status_code = 404, resp_text = ''Not Found'', resp_json = None\<rparr> < 500
      \<and> status_code \<lparr>status_code = 404, resp_text = ''Not Found'', resp_json = None\<rparr> \<noteq> 401"
    by (simp add: env_flaky_def init_def)
  from below_500_returned[of 1 3 env_flaky init
      "\<lparr>status_code = 404, resp_text = ''Not Found'', resp_json = None\<rparr>"
      POST API_game_start None 3] h
  show ?thesis by (simp add: init_def env_flaky_def)
qed

text \<open>
  Claim C3. When every attempt gets a status from 500 on or a network exception, the
  executor makes exactly \<open>retries\<close> requests, sleeps after each of them (so between any
  two attempts, and once more after the last), then logs the failing URL and returns
  \<open>None\<close>. The delay is \<open>backoff\<close> each time in main.py and \<open>backoff_factor * (i + 1)\<close>
  after attempt \<open>i\<close> in overnads.py.
\<close>

theorem retries_exhausted:
  assumes "\<forall>j < nat retries. retryable (net e (calls s + j))"
  shows "(\<exists>new. send_request e method url payload retries backoff s =
            (Inr None, s\<lparr>calls := calls s + nat retries,
                         trace := trace s @ new @ [Print ERROR (M_RequestFailed retries url)]\<rparr>)
          \<and> actions new = concat (replicate (nat retries) [Request method url payload, Sleep backoff]))
       \<and> (\<exists>new. send_request_with_retry e url method payload retries backoff s =
            (Inr None, s\<lparr>calls := calls s + nat retries,
                         trace := trace s @ new @ [Logging ERROR (O_RequestFailed retries url)]\<rparr>)
          \<and> actions new =
              concat (map (\<lambda>i. [request_of method url payload, Sleep (backoff * (int i + 1))])
                        [0..<nat retries]))"
proof -
  have h: "\<And>j. j < length (map int [0..<nat retries]) \<Longrightarrow> retryable (net e (calls s + j))"
    using assms by simp
  from send_request_attempts_prefix[where rest = "[]", OF h]
  have a: "\<exists>new. send_request e method url payload retries backoff s =
            (Inr None, s\<lparr>calls := calls s + nat retries,
                         trace := trace s @ new @ [Print ERROR (M_RequestFailed retries url)]\<rparr>)
          \<and> actions new = concat (replicate (nat retries) [Request method url payload, Sleep backoff])"
    by (fastforce simp: send_request_def io_defs)
  from send_request_with_retry_attempts_prefix[where rest = "[]", OF h]
  have b: "\<exists>new. send_request_with_retry e url method payload retries backoff s =
            (Inr None, s\<lparr>calls := calls s + nat retries,
                         trace := trace s @ new @ [Logging ERROR (O_RequestFailed retries url)]\<rparr>)
          \<and> actions new =
              concat (map (\<lambda>i. [request_of method url payload, Sleep (backoff * (int i + 1))])
                        [0..<nat retries])"
    by (fastforce simp: send_request_with_retry_def io_defs comp_def)
  from a b show ?thesis by blast
qed

text \<open>The theorem at a server that is down, with the default three attempts.\<close>

theorem retries_exhausted_witness:
  "retryable (net env_down (calls init + 0)) \<and> retryable (net env_down (calls init + 1))
   \<and> retryable (net env_down (calls init + 2))
   \<and> fst (send_request env_down POST API_game_start None 3 3 init) = Inr None
   \<and> calls (snd (send_request env_down POST API_game_start None 3 3 init)) = 3
   \<and> fst (send_request_with_retry env_down API_game_start POST None 3 3 init) = Inr None
   \<and> calls (snd (send_request_with_retry env_down API_game_start POST None 3 3 init)) = 3"
proof -
  have h: "\<forall>j < nat 3. retryable (net env_down (calls init + j))"
    by (simp add: env_down_def)
  from retries_exhausted[OF h, of POST API_game_start None 3]
  show ?thesis using h by (auto simp: init_def)
qed

section \<open>The rejected credential\<close>

lemma auth_stop_quiet:
  "calls s' = c \<Longrightarrow> auth_stop Q e c (r, s')"
  by (auto simp: auth_stop_def)

lemma auth_stop_andthen:
  assumes "auth_stop Q e c m"
    and "\<And>v s1. m = (Inr v, s1) \<Longrightarrow> auth_stop Q e (calls s1) (f v s1)"
  shows "auth_stop Q e c (andthen m f)"
proof (cases m)
  case (Pair x s1)
  show ?thesis
  proof (cases x)
    case (Inl a)
    with Pair assms(1) show ?thesis by (auto simp: auth_stop_def)
  next
    case (Inr v)
    with Pair have m: "m = (Inr v, s1)" by simp
    from assms(1) m have c1: "c \<le> calls s1"
      and none: "\<And>k. c \<le> k \<Longrightarrow> k < calls s1 \<Longrightarrow> \<not> is_401 (net e k)"
      by (auto simp: auth_stop_def)
    from assms(2)[OF m] have c2: "calls s1 \<le> calls (snd (f v s1))"
      and later: "\<And>k. calls s1 \<le> k \<Longrightarrow> k < calls (snd (f v s1)) \<Longrightarrow> is_401 (net e k) \<Longrightarrow>
            Suc k = calls (snd (f v s1))
            \<and> (\<exists>x. fst (f v s1) = Inl x \<and> Q x (trace (snd (f v s1))))"
      by (auto simp: auth_stop_def)
    have "andthen m f = f v s1" using m by simp
    then show ?thesis
      unfolding auth_stop_def using c1 c2 none later
      by (metis le_trans not_le_imp_less)
  qed
qed

lemma auth_stop_send_request_attempts:
  "calls s = c \<Longrightarrow> auth_stop exit_main e c (send_request_attempts e m u p R b is s)"
proof (induction "is" arbitrary: s c)
  case Nil
  then show ?case by (simp add: auth_stop_def io_defs)
next
  case (Cons i rest)
  let ?s0 = "s\<lparr>calls := Suc (calls s), trace := trace s @ [Request m u p]\<rparr>"
  show ?case
  proof (cases "net e (calls s)")
    case (Replied r)
    show ?thesis
    proof (cases "status_code r = 401 \<or> status_code r < 500")
      case True
      show ?thesis
      proof (cases "status_code r = 401")
        case True
        with Replied Cons.prems show ?thesis
          by (auto simp: auth_stop_def io_defs exit_main_def)
      next
        case False
        with True Replied Cons.prems have
          res: "send_request_attempts e m u p R b (i # rest) s = (Inr (Some r), ?s0)"
          and n0: "\<not> is_401 (net e c)"
          by (simp_all add: io_defs is_401_def)
        show ?thesis
          unfolding res auth_stop_def using n0 Cons.prems by (auto simp: less_Suc_eq)
      qed
    next
      case False
      let ?s1 = "time_sleep b (print_warning (M_ServerError (status_code r) b (i + 1) R) ?s0)"
      have eq: "send_request_attempts e m u p R b (i # rest) s =
                  send_request_attempts e m u p R b rest ?s1"
        using False Replied by (simp add: io_defs)
      have c1: "calls ?s1 = Suc c" using Cons.prems by (simp add: io_defs)
      have n0: "\<not> is_401 (net e c)" using False Replied Cons.prems by (simp add: is_401_def)
      from Cons.IH[OF c1] n0 show ?thesis
        unfolding eq auth_stop_def
        by (metis Suc_leD Suc_leI le_neq_implies_less)
    qed
  next
    case RequestException
    let ?s1 = "time_sleep b (print_warning (M_NetworkError b (i + 1) R) ?s0)"
    have eq: "send_request_attempts e m u p R b (i # rest) s =
                send_request_attempts e m u p R b rest ?s1"
      using RequestException by (simp add: io_defs)
    have c1: "calls ?s1 = Suc c" using Cons.prems by (simp add: io_defs)
    have n0: "\<not> is_401 (net e c)" using RequestException Cons.prems by (simp add: is_401_def)
    from Cons.IH[OF c1] n0 show ?thesis
      unfolding eq auth_stop_def
      by (metis Suc_leD Suc_leI le_neq_implies_less)
  qed
qed

lemma auth_stop_send_request:
  "calls s = c \<Longrightarrow> auth_stop exit_main e c (send_request e m u p R b s)"
  unfolding send_request_def by (rule auth_stop_send_request_attempts)

lemma exit_overnads_here:
  "exit_overnads e (SystemExit None)
     (trace (send_telegram_message e TG_AuthExpired
        (logging_error O_AuthExpired
           (s\<lparr>calls := Suc (calls s), trace := trace s @ [Request m u p]\<rparr>))))"
proof -
  let ?tail = "if telegram_enabled e
               then (if tg_raises e (tg_calls s)
                     then [Telegram TG_AuthExpired, Logging ERROR O_TelegramFailed]
                     else [Telegram TG_AuthExpired])
               else []"
  have "trace (send_telegram_message e TG_AuthExpired
        (logging_error O_AuthExpired
           (s\<lparr>calls := Suc (calls s), trace := trace s @ [Request m u p]\<rparr>)))
      = trace s @ [Request m u p, Logging ERROR O_AuthExpired] @ ?tail"
    by (simp add: send_telegram_message_def Let_def io_defs)
  then show ?thesis
    unfolding exit_overnads_def
    by (intro conjI refl exI[of _ "trace s"] exI[of _ m] exI[of _ u] exI[of _ p] exI[of _ ?tail])
       simp_all
qed

lemma auth_stop_send_request_with_retry_attempts:
  "calls s = c \<Longrightarrow>
   auth_stop (exit_overnads e) e c (send_request_with_retry_attempts e u m p R b is s)"
proof (induction "is" arbitrary: s c)
  case Nil
  then show ?case by (simp add: auth_stop_def io_defs)
next
  case (Cons i rest)
  let ?s0 = "s\<lparr>calls := Suc (calls s), trace := trace s @ [request_of m u p]\<rparr>"
  show ?case
  proof (cases "net e (calls s)")
    case (Replied r)
    show ?thesis
    proof (cases "status_code r = 401 \<or> status_code r < 500")
      case True
      show ?thesis
      proof (cases "status_code r = 401")
        case True
        have res: "send_request_with_retry_attempts e u m p R b (i # rest) s =
            (Inl (SystemExit None),
             send_telegram_message e TG_AuthExpired (logging_error O_AuthExpired ?s0))"
          using True Replied by (simp add: io_defs request_of_def)
        have ex: "exit_overnads e (SystemExit None)
            (trace (send_telegram_message e TG_AuthExpired (logging_error O_AuthExpired ?s0)))"
          using exit_overnads_here[of e s] by (simp add: request_of_def)
        show ?thesis
          unfolding res auth_stop_def using ex Cons.prems
          by (auto simp: io_defs less_Suc_eq)
      next
        case False
        with True Replied Cons.prems have
          res: "send_request_with_retry_attempts e u m p R b (i # rest) s = (Inr (Some r), ?s0)"
          and n0: "\<not> is_401 (net e c)"
          by (simp_all add: io_defs is_401_def request_of_def)
        show ?thesis
          unfolding res auth_stop_def using n0 Cons.prems by (auto simp: less_Suc_eq)
      qed
    next
      case False
      let ?s1 = "time_sleep (b * (i + 1))
                   (logging_warning (O_ServerError (status_code r) (b * (i + 1))) ?s0)"
      have eq: "send_request_with_retry_attempts e u m p R b (i # rest) s =
                  send_request_with_retry_attempts e u m p R b rest ?s1"
        using False Replied by (simp add: io_defs request_of_def)
      have c1: "calls ?s1 = Suc c" using Cons.prems by (simp add: io_defs)
      have n0: "\<not> is_401 (net e c)" using False Replied Cons.prems by (simp add: is_401_def)
      from Cons.IH[OF c1] n0 show ?thesis
        unfolding eq auth_stop_def
        by (metis Suc_leD Suc_leI le_neq_implies_less)
    qed
  next
    case RequestException
    let ?s1 = "time_sleep (b * (i + 1)) (logging_error (O_NetworkError (b * (i + 1))) ?s0)"
    have eq: "send_request_with_retry_attempts e u m p R b (i # rest) s =
                send_request_with_retry_attempts e u m p R b rest ?s1"
      using RequestException by (simp add: io_defs request_of_def)
    have c1: "calls ?s1 = Suc c" using Cons.prems by (simp add: io_defs)
    have n0: "\<not> is_401 (net e c)" using RequestException Cons.prems by (simp add: is_401_def)
    from Cons.IH[OF c1] n0 show ?thesis
      unfolding eq auth_stop_def
      by (metis Suc_leD Suc_leI le_neq_implies_less)
  qed
qed

lemma auth_stop_send_request_with_retry:
  "calls s = c \<Longrightarrow> auth_stop (exit_overnads e) e c (send_request_with_retry e u m p R b s)"
  unfolding send_request_with_retry_def by (rule auth_stop_send_request_with_retry_attempts)

text \<open>The parts of main.py, from the stats fetch to \<open>main\<close>.\<close>

lemma auth_stop_fetch_account_stats_main:
  "calls s = c \<Longrightarrow> auth_stop exit_main e c (fetch_account_stats_main e s)"
  unfolding fetch_account_stats_main_def
  by (auto intro!: auth_stop_andthen auth_stop_send_request auth_stop_quiet
      simp: io_defs split: option.splits json.splits)

lemma auth_stop_handle_stuck_game_main:
  "calls s = c \<Longrightarrow> auth_stop exit_main e c (handle_stuck_game_main e text s)"
  unfolding handle_stuck_game_main_def
  by (auto intro!: auth_stop_andthen auth_stop_send_request auth_stop_quiet
      simp: io_defs case_prod_beta split: option.splits)

lemma auth_stop_finish_ticket_main:
  "calls s = c \<Longrightarrow> auth_stop exit_main e c (finish_ticket_main e n i start_response s)"
  unfolding finish_ticket_main_def
  by (auto intro!: auth_stop_andthen auth_stop_send_request auth_stop_quiet
      simp: io_defs case_prod_beta)

lemma auth_stop_play_ticket_main:
  "calls s = c \<Longrightarrow> auth_stop exit_main e c (play_ticket_main e n i s)"
  unfolding play_ticket_main_def
  by (auto intro!: auth_stop_andthen auth_stop_send_request auth_stop_quiet
        auth_stop_handle_stuck_game_main auth_stop_finish_ticket_main
      simp: io_defs split: option.splits)

lemma auth_stop_play_tickets_main:
  "calls s = c \<Longrightarrow> auth_stop exit_main e c (play_tickets_main e n is s)"
proof (induction "is" arbitrary: s c)
  case Nil
  then show ?case by (simp add: auth_stop_quiet)
next
  case (Cons i rest)
  show ?case
    unfolding play_tickets_main.simps
    by (intro auth_stop_andthen auth_stop_play_ticket_main Cons.prems Cons.IH refl)
qed

lemma auth_stop_play_all_games_main:
  "calls s = c \<Longrightarrow> auth_stop exit_main e c (play_all_games_main e tickets s)"
  unfolding play_all_games_main_def
  by (auto intro!: auth_stop_andthen auth_stop_play_tickets_main auth_stop_quiet
      simp: io_defs split: option.splits)

lemma calls_print_summary [simp]:
  "calls (snd (print_summary initial_stats final_stats s)) = calls s"
  by (auto simp: print_summary_def io_defs split: option.splits json.splits sum.splits)

lemma auth_stop_print_summary:
  "calls s = c \<Longrightarrow> auth_stop Q e c (print_summary initial_stats final_stats s)"
  by (auto simp: auth_stop_def)

lemma auth_stop_main_main:
  "calls s = c \<Longrightarrow> auth_stop exit_main e c (main_main e s)"
  unfolding main_main_def
  by (auto intro!: auth_stop_andthen auth_stop_fetch_account_stats_main
        auth_stop_play_all_games_main auth_stop_print_summary auth_stop_quiet
      simp: io_defs split: option.splits json.splits)

text \<open>The parts of overnads.py, from the stats fetch to the script body.\<close>

lemma auth_stop_fetch_account_stats_overnads:
  "calls s = c \<Longrightarrow> auth_stop (exit_overnads e) e c (fetch_account_stats_overnads e s)"
  unfolding fetch_account_stats_overnads_def
  by (auto intro!: auth_stop_andthen auth_stop_send_request_with_retry auth_stop_quiet
      simp: io_defs split: option.splits json.splits)

lemma auth_stop_handle_stuck_game_overnads:
  "calls s = c \<Longrightarrow> auth_stop (exit_overnads e) e c (handle_stuck_game_overnads e r s)"
  unfolding handle_stuck_game_overnads_def
  by (auto intro!: auth_stop_andthen auth_stop_send_request_with_retry auth_stop_quiet
      simp: io_defs case_prod_beta split: option.splits sum.splits json.splits)

lemma auth_stop_finish_ticket_overnads:
  "calls s = c \<Longrightarrow>
   auth_stop (exit_overnads e) e c (finish_ticket_overnads e n i played start_response s)"
  unfolding finish_ticket_overnads_def
  by (auto intro!: auth_stop_andthen auth_stop_send_request_with_retry auth_stop_quiet
      simp: io_defs case_prod_beta split: option.splits)

lemma auth_stop_play_ticket_overnads:
  "calls s = c \<Longrightarrow> auth_stop (exit_overnads e) e c (play_ticket_overnads e n i played s)"
  unfolding play_ticket_overnads_def
  by (auto intro!: auth_stop_andthen auth_stop_send_request_with_retry auth_stop_quiet
        auth_stop_handle_stuck_game_overnads auth_stop_finish_ticket_overnads
      simp: io_defs split: option.splits)

lemma auth_stop_play_tickets_overnads:
  "calls s = c \<Longrightarrow> auth_stop (exit_overnads e) e c (play_tickets_overnads e n is played s)"
proof (induction "is" arbitrary: s c played)
  case Nil
  then show ?case by (simp add: auth_stop_quiet)
next
  case (Cons i rest)
  show ?case
    unfolding play_tickets_overnads.simps
    by (intro auth_stop_andthen auth_stop_play_ticket_overnads Cons.prems Cons.IH refl)
qed

lemma auth_stop_play_all_games_overnads:
  "calls s = c \<Longrightarrow> auth_stop (exit_overnads e) e c (play_all_games_overnads e s)"
  unfolding play_all_games_overnads_def
  by (auto intro!: auth_stop_andthen auth_stop_play_tickets_overnads auth_stop_quiet
      simp: io_defs split: option.splits sum.splits)

lemma auth_stop_overnads_main:
  "calls s = c \<Longrightarrow> auth_stop (exit_overnads e) e c (overnads_main e s)"
  unfolding overnads_main_def
  by (auto intro!: auth_stop_andthen auth_stop_fetch_account_stats_overnads
        auth_stop_play_all_games_overnads auth_stop_quiet
      simp: io_defs split: option.splits json.splits)

text \<open>
  Claim C1, as the code has it. A request of the executor that is answered 401 is the
  last request to the game API: the executor logs the critical line and raises
  \<open>SystemExit\<close>, which nothing in the program catches, so the whole run ends there. In
  main.py nothing at all follows the critical line. In overnads.py the executor first
  posts a notification to Telegram when a Telegram token and chat are configured (and logs
  the failure of that post), then exits. This holds for the executors alone and for the
  whole run of either file.
\<close>

theorem credential_rejection_stops:
  "(\<forall>k. calls s \<le> k \<and> k < calls (snd (send_request e method url payload retries backoff s))
         \<and> is_401 (net e k) \<longrightarrow>
      Suc k = calls (snd (send_request e method url payload retries backoff s))
      \<and> fst (send_request e method url payload retries backoff s) = Inl (SystemExit (Some 1))
      \<and> (\<exists>tr0 m u p. trace (snd (send_request e method url payload retries backoff s))
            = tr0 @ [Request m u p, Print ERROR M_AuthExpired]))
   \<and> (\<forall>k. calls s \<le> k \<and> k < calls (snd (main_main e s)) \<and> is_401 (net e k) \<longrightarrow>
      Suc k = calls (snd (main_main e s))
      \<and> fst (main_main e s) = Inl (SystemExit (Some 1))
      \<and> (\<exists>tr0 m u p. trace (snd (main_main e s))
            = tr0 @ [Request m u p, Print ERROR M_AuthExpired]))
   \<and> (\<forall>k. calls s \<le> k
         \<and> k < calls (snd (send_request_with_retry e url method payload retries backoff s))
         \<and> is_401 (net e k) \<longrightarrow>
      Suc k = calls (snd (send_request_with_retry e url method payload retries backoff s))
      \<and> fst (send_request_with_retry e url method payload retries backoff s)
          = Inl (SystemExit None)
      \<and> (\<exists>tr0 m u p tail.
            trace (snd (send_request_with_retry e url method payload retries backoff s))
              = tr0 @ [Request m u p, Logging ERROR O_AuthExpired] @ tail
            \<and> (if telegram_enabled e
                then tail = [Telegram TG_AuthExpired]
                     \<or> tail = [Telegram TG_AuthExpired, Logging ERROR O_TelegramFailed]
                else tail = [])))
   \<and> (\<forall>k. calls s \<le> k \<and> k < calls (snd (overnads_main e s)) \<and> is_401 (net e k) \<longrightarrow>
      Suc k = calls (snd (overnads_main e s))
      \<and> fst (overnads_main e s) = Inl (SystemExit None)
      \<and> (\<exists>tr0 m u p tail.
            trace (snd (overnads_main e s))
              = tr0 @ [Request m u p, Logging ERROR O_AuthExpired] @ tail
            \<and> (if telegram_enabled e
                then tail = [Telegram TG_AuthExpired]
                     \<or> tail = [Telegram TG_AuthExpired, Logging ERROR O_TelegramFailed]
                else tail = [])))"
proof -
  have a: "auth_stop exit_main e (calls s) (send_request e method url payload retries backoff s)"
    by (rule auth_stop_send_request) simp
  have b: "auth_stop exit_main e (calls s) (main_main e s)"
    by (rule auth_stop_main_main) simp
  have c: "auth_stop (exit_overnads e) e (calls s)
             (send_request_with_retry e url method payload retries backoff s)"
    by (rule auth_stop_send_request_with_retry) simp
  have d: "auth_stop (exit_overnads e) e (calls s) (overnads_main e s)"
    by (rule auth_stop_overnads_main) simp
  from a b c d show ?thesis
    unfolding auth_stop_def exit_main_def exit_overnads_def by blast
qed

text \<open>The theorem at a server that rejects the credential at the first request.\<close>

theorem credential_rejection_stops_witness:
  "is_401 (net env_expired_telegram 0)
   \<and> calls (snd (main_main env_expired_telegram init)) = 1
   \<and> fst (main_main env_expired_telegram init) = Inl (SystemExit (Some 1))
   \<and> calls (snd (overnads_main env_expired_telegram init)) = 1
   \<and> fst (overnads_main env_expired_telegram init) = Inl (SystemExit None)
   \<and> calls (snd (send_request env_expired_telegram GET API_user_profile None 3 3 init)) = 1
   \<and> fst (send_request env_expired_telegram GET API_user_profile None 3 3 init)
       = Inl (SystemExit (Some 1))
   \<and> calls (snd (send_request_with_retry env_expired_telegram API_user_profile GET None 3 3 init))
       = 1
   \<and> fst (send_request_with_retry env_expired_telegram API_user_profile GET None 3 3 init)
       = Inl (SystemExit None)"
proof -
  have h: "is_401 (net env_expired_telegram 0)"
    by (simp add: is_401_def env_expired_telegram_def unauthorized_response_def)
  have c: "calls init = 0" by (simp add: init_def)
  have n: "0 < calls (snd (main_main env_expired_telegram init))"
    "0 < calls (snd (overnads_main env_expired_telegram init))"
    "0 < calls (snd (send_request env_expired_telegram GET API_user_profile None 3 3 init))"
    "0 < calls (snd (send_request_with_retry env_expired_telegram API_user_profile GET None 3 3
                       init))"
    by (simp_all add: main_main_def overnads_main_def fetch_account_stats_main_def
        fetch_account_stats_overnads_def send_request_def send_request_with_retry_def
        send_telegram_message_def three_attempts io_defs env_expired_telegram_def
        unauthorized_response_def init_def)
  from credential_rejection_stops[of init env_expired_telegram GET API_user_profile None 3 3]
  have "Suc 0 = calls (snd (send_request env_expired_telegram GET API_user_profile None 3 3 init))
      \<and> fst (send_request env_expired_telegram GET API_user_profile None 3 3 init)
          = Inl (SystemExit (Some 1))"
    and "Suc 0 = calls (snd (main_main env_expired_telegram init))
      \<and> fst (main_main env_expired_telegram init) = Inl (SystemExit (Some 1))"
    and "Suc 0 = calls (snd (send_request_with_retry env_expired_telegram API_user_profile GET
                               None 3 3 init))
      \<and> fst (send_request_with_retry env_expired_telegram API_user_profile GET None 3 3 init)
          = Inl (SystemExit None)"
    and "Suc 0 = calls (snd (overnads_main env_expired_telegram init))
      \<and> fst (overnads_main env_expired_telegram init) = Inl (SystemExit None)"
    using h c n by blast+
  with h show ?thesis by simp
qed

text \<open>
  Claim C1 as the specification words it fails in overnads.py: with a Telegram
  configuration, the run below gets 401 on its first request and then makes one more
  network call, the post to Telegram, before it exits.
\<close>

theorem telegram_post_after_rejection:
  "net env_expired_telegram 0 = Replied unauthorized_response
   \<and> status_code unauthorized_response = 401
   \<and> telegram_enabled env_expired_telegram
   \<and> overnads_main env_expired_telegram init =
       (Inl (SystemExit None),
        \<lparr>calls = 1, tg_calls = 2, draws = 0,
         trace =
           [Logging INFO O_BotStarted, Telegram TG_BotStarted, Logging INFO O_Fetching,
            Request GET API_user_profile None,
            Logging ERROR O_AuthExpired, Telegram TG_AuthExpired],
         account_stats = JObj []\<rparr>)"
  by (simp add: overnads_main_def fetch_account_stats_overnads_def send_request_with_retry_def
      send_telegram_message_def three_attempts io_defs env_expired_telegram_def
      unauthorized_response_def init_def)

section \<open>The stuck-session recoverer\<close>

text \<open>The recoverer of main.py once an identifier is found.\<close>

lemma handle_stuck_game_main_found:
  assumes "re_search_game_id error_response_text = Some stuck_game_id"
  shows "handle_stuck_game_main e error_response_text s =
    andthen
      (send_request e POST API_game_end
         (Some (JObj [(''gameId'', JStr stuck_game_id),
            (''overPoints'',
             JNum (fst (randint e 90 110 (print_warning (M_AttemptingClear stuck_game_id) s)))),
            (''collectedItems'', JArr [])])) 3 3
         (snd (randint e 90 110 (print_warning (M_AttemptingClear stuck_game_id) s))))
      (\<lambda>end_response s2.
         if truthy_and end_response (\<lambda>r. status_code r = 200 \<or> status_code r = 201)
         then (Inr True, print_success M_Cleared s2)
         else (Inr False,
               print_error (M_FailedToClear (if_truthy end_response resp_text ''No Response''))
                 s2))"
  using assms by (simp add: handle_stuck_game_main_def case_prod_beta)

lemma handle_stuck_game_overnads_found:
  assumes "resp_json error_response = Some (JObj d)"
    and "dict_get d ''error'' (JStr []) = JStr error_message"
    and "re_search_game_id error_message = Some stuck_game_id"
  shows "handle_stuck_game_overnads e error_response s =
    andthen
      (send_request_with_retry e API_game_end POST
         (Some (JObj [(''gameId'', JStr stuck_game_id),
            (''overPoints'',
             JNum (fst (randint e 90 110 (logging_info (O_FoundStuck stuck_game_id) s)))),
            (''collectedItems'', JArr [])])) 3 3
         (snd (randint e 90 110 (logging_info (O_FoundStuck stuck_game_id) s))))
      (\<lambda>end_response s2.
         if truthy_and end_response (\<lambda>r. status_code r = 200 \<or> status_code r = 201)
         then (Inr True, logging_info O_Cleared s2)
         else (Inr False,
               logging_error (O_FailedToClear (if_truthy end_response resp_text ''No Response''))
                 s2))"
  using assms by (simp add: handle_stuck_game_overnads_def case_prod_beta)







text \<open>
  Claim C6. Every request the recoverer makes is a POST to the end URL whose payload has
  the extracted identifier as \<open>gameId\<close>, an \<open>overPoints\<close> between 90 and 110 and an empty
  \<open>collectedItems\<close> list, and it makes at least one. main.py takes the identifier from
  the response text, overnads.py from the \<open>error\<close> entry of the decoded body.
\<close>

theorem recovery_payload:
  "(re_search_game_id error_response_text = Some stuck_game_id \<longrightarrow>
      (\<exists>points new. 90 \<le> points \<and> points \<le> 110
         \<and> trace (snd (handle_stuck_game_main e error_response_text s)) = trace s @ new
         \<and> Request POST API_game_end
              (Some (JObj [(''gameId'', JStr stuck_game_id), (''overPoints'', JNum points),
                           (''collectedItems'', JArr [])])) \<in> set new
         \<and> (\<forall>ev\<in>set new. is_request ev \<longrightarrow>
               ev = Request POST API_game_end
                      (Some (JObj [(''gameId'', JStr stuck_game_id), (''overPoints'', JNum points),
                                   (''collectedItems'', JArr [])])))))
   \<and> (resp_json error_response = Some (JObj d)
        \<and> dict_get d ''error'' (JStr []) = JStr error_message
        \<and> re_search_game_id error_message = Some stuck_game_id \<longrightarrow>
      (\<exists>points new. 90 \<le> points \<and> points \<le> 110
         \<and> trace (snd (handle_stuck_game_overnads e error_response s)) = trace s @ new
         \<and> Request POST API_game_end
              (Some (JObj [(''gameId'', JStr stuck_game_id), (''overPoints'', JNum points),
                           (''collectedItems'', JArr [])])) \<in> set new
         \<and> (\<forall>ev\<in>set new. is_request ev \<longrightarrow>
               ev = Request POST API_game_end
                      (Some (JObj [(''gameId'', JStr stuck_game_id), (''overPoints'', JNum points),
                                   (''collectedItems'', JArr [])])))))"
proof (intro conjI impI)
  assume m: "re_search_game_id error_response_text = Some stuck_game_id"
  let ?s0 = "print_warning (M_AttemptingClear stuck_game_id) s"
  let ?points = "fst (randint e 90 110 ?s0)"
  let ?s1 = "snd (randint e 90 110 ?s0)"
  let ?pl = "Some (JObj [(''gameId'', JStr stuck_game_id), (''overPoints'', JNum ?points),
                         (''collectedItems'', JArr [])])"
  let ?sent = "send_request e POST API_game_end ?pl 3 3 ?s1"
  have rng: "90 \<le> ?points \<and> ?points \<le> 110" by (rule randint_range) simp
  from send_request_first[of e POST API_game_end ?pl 3 ?s1] obtain new0 where
    n0: "trace (snd ?sent) = trace ?s1 @ Request POST API_game_end ?pl # new0"
    and r0: "\<forall>ev\<in>set new0. is_request ev \<longrightarrow> ev = Request POST API_game_end ?pl"
    by blast
  have "\<exists>tail. trace (snd (handle_stuck_game_main e error_response_text s))
                 = trace (snd ?sent) @ tail \<and> (\<forall>ev\<in>set tail. \<not> is_request ev)"
  proof (cases ?sent)
    case (Pair x s2)
    then show ?thesis
      unfolding handle_stuck_game_main_found[OF m] by (cases x) (simp_all add: io_defs)
  qed
  then obtain tail where
    t: "trace (snd (handle_stuck_game_main e error_response_text s)) = trace (snd ?sent) @ tail"
    and rt: "\<forall>ev\<in>set tail. \<not> is_request ev" by blast
  have tr: "trace (snd (handle_stuck_game_main e error_response_text s)) =
          trace s @ ([Print WARNING (M_AttemptingClear stuck_game_id)]
                      @ Request POST API_game_end ?pl # new0 @ tail)"
    unfolding t n0 by (simp add: io_defs)
  show "\<exists>points new. 90 \<le> points \<and> points \<le> 110
         \<and> trace (snd (handle_stuck_game_main e error_response_text s)) = trace s @ new
         \<and> Request POST API_game_end
              (Some (JObj [(''gameId'', JStr stuck_game_id), (''overPoints'', JNum points),
                           (''collectedItems'', JArr [])])) \<in> set new
         \<and> (\<forall>ev\<in>set new. is_request ev \<longrightarrow>
               ev = Request POST API_game_end
                      (Some (JObj [(''gameId'', JStr stuck_game_id), (''overPoints'', JNum points),
                                   (''collectedItems'', JArr [])])))"
    using rng tr r0 rt
    by (intro exI[of _ ?points] exI[of _ "[Print WARNING (M_AttemptingClear stuck_game_id)]
                      @ Request POST API_game_end ?pl # new0 @ tail"]) auto
next
  assume a: "resp_json error_response = Some (JObj d)
        \<and> dict_get d ''error'' (JStr []) = JStr error_message
        \<and> re_search_game_id error_message = Some stuck_game_id"
  let ?s0 = "logging_info (O_FoundStuck stuck_game_id) s"
  let ?points = "fst (randint e 90 110 ?s0)"
  let ?s1 = "snd (randint e 90 110 ?s0)"
  let ?pl = "Some (JObj [(''gameId'', JStr stuck_game_id), (''overPoints'', JNum ?points),
                         (''collectedItems'', JArr [])])"
  let ?sent = "send_request_with_retry e API_game_end POST ?pl 3 3 ?s1"
  have rng: "90 \<le> ?points \<and> ?points \<le> 110" by (rule randint_range) simp
  have found: "handle_stuck_game_overnads e error_response s =
    andthen ?sent
      (\<lambda>end_response s2.
         if truthy_and end_response (\<lambda>r. status_code r = 200 \<or> status_code r = 201)
         then (Inr True, logging_info O_Cleared s2)
         else (Inr False,
               logging_error (O_FailedToClear (if_truthy end_response resp_text ''No Response''))
                 s2))"
    using a by (intro handle_stuck_game_overnads_found[where d = d and error_message = error_message])
      simp_all
  from send_request_with_retry_first[of e API_game_end ?pl 3 ?s1] obtain new0 where
    n0: "trace (snd ?sent) = trace ?s1 @ Request POST API_game_end ?pl # new0"
    and r0: "\<forall>ev\<in>set new0. is_request ev \<longrightarrow> ev = Request POST API_game_end ?pl"
    by blast
  have "\<exists>tail. trace (snd (handle_stuck_game_overnads e error_response s))
                 = trace (snd ?sent) @ tail \<and> (\<forall>ev\<in>set tail. \<not> is_request ev)"
  proof (cases ?sent)
    case (Pair x s2)
    then show ?thesis
      unfolding found by (cases x) (simp_all add: io_defs)
  qed
  then obtain tail where
    t: "trace (snd (handle_stuck_game_overnads e error_response s)) = trace (snd ?sent) @ tail"
    and rt: "\<forall>ev\<in>set tail. \<not> is_request ev" by blast
  have tr: "trace (snd (handle_stuck_game_overnads e error_response s)) =
          trace s @ ([Logging INFO (O_FoundStuck stuck_game_id)]
                      @ Request POST API_game_end ?pl # new0 @ tail)"
    unfolding t n0 by (simp add: io_defs)
  show "\<exists>points new. 90 \<le> points \<and> points \<le> 110
         \<and> trace (snd (handle_stuck_game_overnads e error_response s)) = trace s @ new
         \<and> Request POST API_game_end
              (Some (JObj [(''gameId'', JStr stuck_game_id), (''overPoints'', JNum points),
                           (''collectedItems'', JArr [])])) \<in> set new
         \<and> (\<forall>ev\<in>set new. is_request ev \<longrightarrow>
               ev = Request POST API_game_end
                      (Some (JObj [(''gameId'', JStr stuck_game_id), (''overPoints'', JNum points),
                                   (''collectedItems'', JArr [])])))"
    using rng tr r0 rt
    by (intro exI[of _ ?points] exI[of _ "[Logging INFO (O_FoundStuck stuck_game_id)]
                      @ Request POST API_game_end ?pl # new0 @ tail"]) auto
qed

lemma conflict_text_id:
  "re_search_game_id conflict_text = Some ''abc12345-0000-0000-0000-000000000000''"
  by (simp add: conflict_text_def id_char_def)

text \<open>The theorem at the conflict response above.\<close>

theorem recovery_payload_witness:
  "re_search_game_id conflict_text = Some ''abc12345-0000-0000-0000-000000000000''
   \<and> resp_json conflict_response = Some (JObj [(''error'', JStr conflict_text)])
   \<and> dict_get [(''error'', JStr conflict_text)] ''error'' (JStr []) = JStr conflict_text
   \<and> (\<exists>points new. 90 \<le> points \<and> points \<le> 110
         \<and> trace (snd (handle_stuck_game_main env_ok conflict_text init)) = trace init @ new
         \<and> Request POST API_game_end
              (Some (JObj [(''gameId'', JStr ''abc12345-0000-0000-0000-000000000000''),
                           (''overPoints'', JNum points), (''collectedItems'', JArr [])]))
             \<in> set new)
   \<and> (\<exists>points new. 90 \<le> points \<and> points \<le> 110
         \<and> trace (snd (handle_stuck_game_overnads env_ok conflict_response init)) = trace init @ new
         \<and> Request POST API_game_end
              (Some (JObj [(''gameId'', JStr ''abc12345-0000-0000-0000-000000000000''),
                           (''overPoints'', JNum points), (''collectedItems'', JArr [])]))
             \<in> set new)"
proof -
  have h1: "re_search_game_id conflict_text = Some ''abc12345-0000-0000-0000-000000000000''"
    by (rule conflict_text_id)
  have h2: "resp_json conflict_response = Some (JObj [(''error'', JStr conflict_text)])"
    by (simp add: conflict_response_def)
  have h3: "dict_get [(''error'', JStr conflict_text)] ''error'' (JStr []) = JStr conflict_text"
    by (simp add: dict_get_def)
  from recovery_payload[of conflict_text "''abc12345-0000-0000-0000-000000000000''" env_ok init
      conflict_response "[(''error'', JStr conflict_text)]" conflict_text] h1 h2 h3
  show ?thesis by blast
qed

text \<open>
  Claim C5, as the code has it. Once an identifier is extracted, the recoverer returns
  what the executor's end request decides: \<open>True\<close> exactly when the executor returns a
  response with status 200 or 201, \<open>False\<close> on every other response and on \<open>None\<close>. When
  the executor ends the process instead of returning (the end request was answered 401),
  its exception leaves the recoverer too, which then returns nothing.
\<close>

theorem recovery_result:
  "(re_search_game_id error_response_text = Some stuck_game_id \<longrightarrow>
      (\<forall>end_response.
         fst (send_request e POST API_game_end
                (Some (JObj [(''gameId'', JStr stuck_game_id),
                   (''overPoints'',
                    JNum (fst (randint e 90 110 (print_warning (M_AttemptingClear stuck_game_id) s)))),
                   (''collectedItems'', JArr [])])) 3 3
                (snd (randint e 90 110 (print_warning (M_AttemptingClear stuck_game_id) s))))
           = Inr end_response \<longrightarrow>
         fst (handle_stuck_game_main e error_response_text s) =
           Inr (case end_response of None \<Rightarrow> False
                | Some r \<Rightarrow> status_code r = 200 \<or> status_code r = 201))
      \<and> (\<forall>x.
         fst (send_request e POST API_game_end
                (Some (JObj [(''gameId'', JStr stuck_game_id),
                   (''overPoints'',
                    JNum (fst (randint e 90 110 (print_warning (M_AttemptingClear stuck_game_id) s)))),
                   (''collectedItems'', JArr [])])) 3 3
                (snd (randint e 90 110 (print_warning (M_AttemptingClear stuck_game_id) s))))
           = Inl x \<longrightarrow>
         fst (handle_stuck_game_main e error_response_text s) = Inl x))
   \<and> (resp_json error_response = Some (JObj d)
        \<and> dict_get d ''error'' (JStr []) = JStr error_message
        \<and> re_search_game_id error_message = Some stuck_game_id \<longrightarrow>
      (\<forall>end_response.
         fst (send_request_with_retry e API_game_end POST
                (Some (JObj [(''gameId'', JStr stuck_game_id),
                   (''overPoints'',
                    JNum (fst (randint e 90 110 (logging_info (O_FoundStuck stuck_game_id) s)))),
                   (''collectedItems'', JArr [])])) 3 3
                (snd (randint e 90 110 (logging_info (O_FoundStuck stuck_game_id) s))))
           = Inr end_response \<longrightarrow>
         fst (handle_stuck_game_overnads e error_response s) =
           Inr (case end_response of None \<Rightarrow> False
                | Some r \<Rightarrow> status_code r = 200 \<or> status_code r = 201))
      \<and> (\<forall>x.
         fst (send_request_with_retry e API_game_end POST
                (Some (JObj [(''gameId'', JStr stuck_game_id),
                   (''overPoints'',
                    JNum (fst (randint e 90 110 (logging_info (O_FoundStuck stuck_game_id) s)))),
                   (''collectedItems'', JArr [])])) 3 3
                (snd (randint e 90 110 (logging_info (O_FoundStuck stuck_game_id) s))))
           = Inl x \<longrightarrow>
         fst (handle_stuck_game_overnads e error_response s) = Inl x))"
proof (intro conjI impI allI)
  fix end_response
  assume m: "re_search_game_id error_response_text = Some stuck_game_id"
  assume "fst (send_request e POST API_game_end
                (Some (JObj [(''gameId'', JStr stuck_game_id),
                   (''overPoints'',
                    JNum (fst (randint e 90 110 (print_warning (M_AttemptingClear stuck_game_id) s)))),
                   (''collectedItems'', JArr [])])) 3 3
                (snd (randint e 90 110 (print_warning (M_AttemptingClear stuck_game_id) s))))
           = Inr end_response"
  then show "fst (handle_stuck_game_main e error_response_text s) =
           Inr (case end_response of None \<Rightarrow> False
                | Some r \<Rightarrow> status_code r = 200 \<or> status_code r = 201)"
    unfolding handle_stuck_game_main_found[OF m]
    by (auto simp: andthen_def split: prod.splits option.splits)
next
  fix x
  assume m: "re_search_game_id error_response_text = Some stuck_game_id"
  assume "fst (send_request e POST API_game_end
                (Some (JObj [(''gameId'', JStr stuck_game_id),
                   (''overPoints'',
                    JNum (fst (randint e 90 110 (print_warning (M_AttemptingClear stuck_game_id) s)))),
                   (''collectedItems'', JArr [])])) 3 3
                (snd (randint e 90 110 (print_warning (M_AttemptingClear stuck_game_id) s))))
           = Inl x"
  then show "fst (handle_stuck_game_main e error_response_text s) = Inl x"
    unfolding handle_stuck_game_main_found[OF m]
    by (auto simp: andthen_def split: prod.splits)
next
  fix end_response
  assume a: "resp_json error_response = Some (JObj d)
        \<and> dict_get d ''error'' (JStr []) = JStr error_message
        \<and> re_search_game_id error_message = Some stuck_game_id"
  then have f: "resp_json error_response = Some (JObj d)"
    "dict_get d ''error'' (JStr []) = JStr error_message"
    "re_search_game_id error_message = Some stuck_game_id" by simp_all
  assume "fst (send_request_with_retry e API_game_end POST
                (Some (JObj [(''gameId'', JStr stuck_game_id),
                   (''overPoints'',
                    JNum (fst (randint e 90 110 (logging_info (O_FoundStuck stuck_game_id) s)))),
                   (''collectedItems'', JArr [])])) 3 3
                (snd (randint e 90 110 (logging_info (O_FoundStuck stuck_game_id) s))))
           = Inr end_response"
  then show "fst (handle_stuck_game_overnads e error_response s) =
           Inr (case end_response of None \<Rightarrow> False
                | Some r \<Rightarrow> status_code r = 200 \<or> status_code r = 201)"
    unfolding handle_stuck_game_overnads_found[OF f]
    by (auto simp: andthen_def split: prod.splits option.splits)
next
  fix x
  assume a: "resp_json error_response = Some (JObj d)
        \<and> dict_get d ''error'' (JStr []) = JStr error_message
        \<and> re_search_game_id error_message = Some stuck_game_id"
  then have f: "resp_json error_response = Some (JObj d)"
    "dict_get d ''error'' (JStr []) = JStr error_message"
    "re_search_game_id error_message = Some stuck_game_id" by simp_all
  assume "fst (send_request_with_retry e API_game_end POST
                (Some (JObj [(''gameId'', JStr stuck_game_id),
                   (''overPoints'',
                    JNum (fst (randint e 90 110 (logging_info (O_FoundStuck stuck_game_id) s)))),
                   (''collectedItems'', JArr [])])) 3 3
                (snd (randint e 90 110 (logging_info (O_FoundStuck stuck_game_id) s))))
           = Inl x"
  then show "fst (handle_stuck_game_overnads e error_response s) = Inl x"
    unfolding handle_stuck_game_overnads_found[OF f]
    by (auto simp: andthen_def split: prod.splits)
qed

text \<open>
  The theorem at the conflict response above: the recovery succeeds at a server that
  answers 200, and fails at a server that is down, where the executor returns \<open>None\<close>.
\<close>

theorem recovery_result_witness:
  "re_search_game_id conflict_text = Some ''abc12345-0000-0000-0000-000000000000''
   \<and> resp_json conflict_response = Some (JObj [(''error'', JStr conflict_text)])
   \<and> dict_get [(''error'', JStr conflict_text)] ''error'' (JStr []) = JStr conflict_text
   \<and> fst (handle_stuck_game_main env_ok conflict_text init) = Inr True
   \<and> fst (handle_stuck_game_main env_down conflict_text init) = Inr False
   \<and> fst (handle_stuck_game_overnads env_ok conflict_response init) = Inr True
   \<and> fst (handle_stuck_game_overnads env_down conflict_response init) = Inr False"
proof -
  have h1: "re_search_game_id conflict_text = Some ''abc12345-0000-0000-0000-000000000000''"
    by (rule conflict_text_id)
  have h2: "resp_json conflict_response = Some (JObj [(''error'', JStr conflict_text)])"
    by (simp add: conflict_response_def)
  have h3: "dict_get [(''error'', JStr conflict_text)] ''error'' (JStr []) = JStr conflict_text"
    by (simp add: dict_get_def)
  have ok: "\<And>m u p b s. fst (send_request env_ok m u p 3 b s) = Inr (Some ok_response)"
    "\<And>u p b s. fst (send_request_with_retry env_ok u POST p 3 b s) = Inr (Some ok_response)"
    by (simp_all add: send_request_def send_request_with_retry_def three_attempts io_defs
        env_ok_def ok_response_def)
  have down: "\<And>m u p b s. fst (send_request env_down m u p 3 b s) = Inr None"
    "\<And>u p b s. fst (send_request_with_retry env_down u POST p 3 b s) = Inr None"
    by (simp_all add: send_request_def send_request_with_retry_def three_attempts io_defs
        env_down_def)
  have st: "status_code ok_response = 200" by (simp add: ok_response_def)
  from recovery_result[where error_response_text = conflict_text
      and stuck_game_id = "''abc12345-0000-0000-0000-000000000000''" and e = env_ok and s = init
      and error_response = conflict_response and d = "[(''error'', JStr conflict_text)]"
      and error_message = conflict_text]
    recovery_result[where error_response_text = conflict_text
      and stuck_game_id = "''abc12345-0000-0000-0000-000000000000''" and e = env_down and s = init
      and error_response = conflict_response and d = "[(''error'', JStr conflict_text)]"
      and error_message = conflict_text]
    h1 h2 h3
  show ?thesis by (simp add: ok down st)
qed

text \<open>
  Claim C5 as the specification words it fails when the end request is answered 401: an
  identifier is extracted, the executor ends the process, and the recoverer returns
  neither \<open>True\<close> nor \<open>False\<close>.
\<close>

theorem recovery_ends_on_rejection:
  "re_search_game_id conflict_text = Some ''abc12345-0000-0000-0000-000000000000''
   \<and> net env_expired_telegram 0 = Replied unauthorized_response
   \<and> status_code unauthorized_response = 401
   \<and> handle_stuck_game_main env_expired_telegram conflict_text init =
       (Inl (SystemExit (Some 1)),
        \<lparr>calls = 1, tg_calls = 0, draws = 1,
         trace =
           [Print WARNING (M_AttemptingClear ''abc12345-0000-0000-0000-000000000000''),
            Request POST API_game_end
              (Some (JObj [(''gameId'', JStr ''abc12345-0000-0000-0000-000000000000''),
                           (''overPoints'', JNum 90), (''collectedItems'', JArr [])])),
            Print ERROR M_AuthExpired],
         account_stats = JObj []\<rparr>)
   \<and> handle_stuck_game_overnads env_expired_telegram conflict_response init =
       (Inl (SystemExit None),
        \<lparr>calls = 1, tg_calls = 1, draws = 1,
         trace =
           [Logging INFO (O_FoundStuck ''abc12345-0000-0000-0000-000000000000''),
            Request POST API_game_end
              (Some (JObj [(''gameId'', JStr ''abc12345-0000-0000-0000-000000000000''),
                           (''overPoints'', JNum 90), (''collectedItems'', JArr [])])),
            Logging ERROR O_AuthExpired, Telegram TG_AuthExpired],
         account_stats = JObj []\<rparr>)"
proof -
  have m: "handle_stuck_game_main env_expired_telegram conflict_text init =
       (Inl (SystemExit (Some 1)),
        \<lparr>calls = 1, tg_calls = 0, draws = 1,
         trace =
           [Print WARNING (M_AttemptingClear ''abc12345-0000-0000-0000-000000000000''),
            Request POST API_game_end
              (Some (JObj [(''gameId'', JStr ''abc12345-0000-0000-0000-000000000000''),
                           (''overPoints'', JNum 90), (''collectedItems'', JArr [])])),
            Print ERROR M_AuthExpired],
         account_stats = JObj []\<rparr>)"
    by (simp add: handle_stuck_game_main_def conflict_text_id send_request_def three_attempts
        io_defs randint_def env_expired_telegram_def unauthorized_response_def init_def)
  have o: "handle_stuck_game_overnads env_expired_telegram conflict_response init =
       (Inl (SystemExit None),
        \<lparr>calls = 1, tg_calls = 1, draws = 1,
         trace =
           [Logging INFO (O_FoundStuck ''abc12345-0000-0000-0000-000000000000''),
            Request POST API_game_end
              (Some (JObj [(''gameId'', JStr ''abc12345-0000-0000-0000-000000000000''),
                           (''overPoints'', JNum 90), (''collectedItems'', JArr [])])),
            Logging ERROR O_AuthExpired, Telegram TG_AuthExpired],
         account_stats = JObj []\<rparr>)"
    by (simp add: handle_stuck_game_overnads_def conflict_response_def dict_get_def
        conflict_text_id send_request_with_retry_def send_telegram_message_def three_attempts
        io_defs randint_def env_expired_telegram_def unauthorized_response_def init_def)
  show ?thesis
    using m o conflict_text_id
    by (simp add: env_expired_telegram_def unauthorized_response_def)
qed

section \<open>The play loop\<close>

text \<open>
  Claim C7. With a ticket count of 0 the play loop makes no request and returns at once:
  it only prints (main.py) or logs (overnads.py) that there is no ticket. overnads.py
  reads the count from the global \<open>account_stats\<close>.
\<close>

theorem no_tickets_no_calls:
  "play_all_games_main e (JNum 0) s = (Inr (), s\<lparr>trace := trace s @ [Print INFO M_NoTickets]\<rparr>)
   \<and> (py_get (account_stats s) ''tickets'' (JNum 0) = Inr (JNum 0) \<longrightarrow>
        play_all_games_overnads e s =
          (Inr (), s\<lparr>trace := trace s @ [Logging INFO O_NoTickets]\<rparr>))"
  by (simp add: play_all_games_main_def play_all_games_overnads_def py_eq_zero_def io_defs)

text \<open>The theorem at the initial state, whose \<open>account_stats\<close> has no \<open>tickets\<close> entry.\<close>

theorem no_tickets_no_calls_witness:
  "py_get (account_stats init) ''tickets'' (JNum 0) = Inr (JNum 0)
   \<and> play_all_games_overnads env_down init =
       (Inr (), init\<lparr>trace := trace init @ [Logging INFO O_NoTickets]\<rparr>)"
  using no_tickets_no_calls[of env_down init] by (simp add: init_def dict_get_def)




section \<open>The account stats\<close>

text \<open>A field that is absent from the stats object is read as its default.\<close>

lemma dict_get_absent:
  assumes "key \<notin> fst ` set d"
  shows "dict_get d key dflt = dflt"
proof -
  have "map_of d key = None" using assms by (simp add: map_of_eq_None_iff)
  then show ?thesis by (simp add: dict_get_def)
qed

text \<open>
  So a stats object without \<open>tickets\<close> gives the play loop of main.py the count 0, on
  which it does nothing but print that there is no ticket.
\<close>

lemma missing_tickets_no_op:
  assumes "''tickets'' \<notin> fst ` set d"
  shows "play_all_games_main e (dict_get d ''tickets'' (JNum 0)) s =
           (Inr (), s\<lparr>trace := trace s @ [Print INFO M_NoTickets]\<rparr>)"
  by (simp add: dict_get_absent[OF assms] play_all_games_main_def py_eq_zero_def io_defs)

text \<open>
  Claim C10 at a stats response with status 200 and the body \<open>{}\<close>, from which all four
  fields are absent. Both files read the defaults (the line they print or log shows 0
  points, 0 coins, 0 tickets). overnads.py goes on with a ticket count of 0: the play loop
  logs that there is no ticket and the run completes. main.py does not: \<open>main\<close> tests
  \<open>if not initial_stats\<close>, which is true of the empty dict, reports that the stats could
  not be fetched and exits with code 1 before the play loop.
\<close>

theorem empty_stats_object:
  "net env_ok 0 = Replied ok_response
   \<and> status_code ok_response = 200 \<and> resp_json ok_response = Some (JObj [])
   \<and> main_main env_ok init =
       (Inl (SystemExit (Some 1)),
        \<lparr>calls = 1, tg_calls = 0, draws = 0,
         trace =
           [Print PLAIN M_BotStarted, Print INFO M_Fetching,
            Request GET API_user_profile None,
            Print SUCCESS (M_StatsUpdated (JNum 0) (JNum 0) (JNum 0)),
            Print ERROR M_CouldNotFetchInitial],
         account_stats = JObj []\<rparr>)
   \<and> overnads_main env_ok init =
       (Inr (),
        \<lparr>calls = 2, tg_calls = 0, draws = 0,
         trace =
           [Logging INFO O_BotStarted, Logging INFO O_Fetching,
            Request GET API_user_profile None,
            Logging INFO (O_StatsUpdated (JNum 0) (JNum 0) (JNum 0)),
            Logging INFO O_NoTickets, Logging INFO O_AllTasksComplete, Sleep 5,
            Logging INFO O_Fetching,
            Request GET API_user_profile None,
            Logging INFO (O_StatsUpdated (JNum 0) (JNum 0) (JNum 0)),
            Logging INFO O_ScriptFinished],
         account_stats = JObj []\<rparr>)"
proof -
  have m: "main_main env_ok init =
       (Inl (SystemExit (Some 1)),
        \<lparr>calls = 1, tg_calls = 0, draws = 0,
         trace =
           [Print PLAIN M_BotStarted, Print INFO M_Fetching,
            Request GET API_user_profile None,
            Print SUCCESS (M_StatsUpdated (JNum 0) (JNum 0) (JNum 0)),
            Print ERROR M_CouldNotFetchInitial],
         account_stats = JObj []\<rparr>)"
    by (simp add: main_main_def fetch_account_stats_main_def send_request_def three_attempts
        io_defs env_ok_def ok_response_def init_def truthy_and_def if_truthy_def response_ok_def
        dict_get_def opt_bool_def)
  have o: "overnads_main env_ok init =
       (Inr (),
        \<lparr>calls = 2, tg_calls = 0, draws = 0,
         trace =
           [Logging INFO O_BotStarted, Logging INFO O_Fetching,
            Request GET API_user_profile None,
            Logging INFO (O_StatsUpdated (JNum 0) (JNum 0) (JNum 0)),
            Logging INFO O_NoTickets, Logging INFO O_AllTasksComplete, Sleep 5,
            Logging INFO O_Fetching,
            Request GET API_user_profile None,
            Logging INFO (O_StatsUpdated (JNum 0) (JNum 0) (JNum 0)),
            Logging INFO O_ScriptFinished],
         account_stats = JObj []\<rparr>)"
    by (simp add: overnads_main_def fetch_account_stats_overnads_def
        play_all_games_overnads_def send_telegram_message_def
        send_request_with_retry_def three_attempts
        io_defs env_ok_def ok_response_def init_def truthy_and_def if_truthy_def response_ok_def
        dict_get_def py_eq_zero_def)
  show ?thesis using m o by (simp add: env_ok_def ok_response_def)
qed

section \<open>The started game\<close>

lemma take_prefix_length [simp]:
  assumes "take (length tr) xs = tr"
  shows "length tr \<le> length xs"
proof -
  have "length (take (length tr) xs) = length tr"
    using assms by simp
  then show ?thesis
    by simp
qed

lemma take_prefix_append [simp]:
  assumes "take (length tr) xs = tr"
  shows "take (length tr) (xs @ ys) = tr"
  using assms take_prefix_length[OF assms] by simp

lemma keeps_trace_iff: "keeps_trace tr res \<longleftrightarrow> (\<exists>new. trace (snd res) = tr @ new)"
  unfolding keeps_trace_def
  by (metis append_eq_conv_conj append_take_drop_id)

lemma keeps_trace_leaf:
  "take (length tr) (trace s') = tr \<Longrightarrow> keeps_trace tr (r, s')"
  by (simp add: keeps_trace_def)

lemma keeps_trace_andthen:
  assumes "keeps_trace tr m"
    and "\<And>v s1. m = (Inr v, s1) \<Longrightarrow> keeps_trace (trace s1) (f v s1)"
  shows "keeps_trace tr (andthen m f)"
proof (cases m)
  case (Pair x s1)
  show ?thesis
  proof (cases x)
    case (Inl a)
    with Pair assms(1) show ?thesis by (simp add: keeps_trace_def)
  next
    case (Inr v)
    with Pair have m: "m = (Inr v, s1)" by simp
    from assms(1) m obtain n1 where "trace s1 = tr @ n1" by (auto simp: keeps_trace_iff)
    moreover from assms(2)[OF m] obtain n2 where "trace (snd (f v s1)) = trace s1 @ n2"
      by (auto simp: keeps_trace_iff)
    ultimately have "trace (snd (andthen m f)) = tr @ (n1 @ n2)" using m by simp
    then show ?thesis unfolding keeps_trace_iff by blast
  qed
qed

lemma andthen_assoc:
  "andthen (andthen m f) g = andthen m (\<lambda>v s. andthen (f v s) g)"
  by (cases m; case_tac a) simp_all

lemma keeps_trace_send_request:
  assumes "take (length tr) (trace s) = tr"
  shows "keeps_trace tr (send_request e m u p R b s)"
proof -
  from send_request_attempts_requests[of e m u p R b "map int [0..<nat R]" s]
  obtain new where "trace (snd (send_request e m u p R b s)) = trace s @ new"
    unfolding send_request_def by blast
  then show ?thesis using assms by (simp add: keeps_trace_def)
qed

lemma keeps_trace_send_request_with_retry:
  assumes "take (length tr) (trace s) = tr"
  shows "keeps_trace tr (send_request_with_retry e u m p R b s)"
proof -
  from send_request_with_retry_attempts_requests[of e u m p R b "map int [0..<nat R]" s]
  obtain new where "trace (snd (send_request_with_retry e u m p R b s)) = trace s @ new"
    unfolding send_request_with_retry_def by blast
  then show ?thesis using assms by (simp add: keeps_trace_def)
qed

lemma take_wait_next [simp]:
  "take (length tr) (trace s) = tr \<Longrightarrow> take (length tr) (trace (wait_next_main e n i s)) = tr"
  "take (length tr) (trace s) = tr
     \<Longrightarrow> take (length tr) (trace (wait_next_overnads e n i s)) = tr"
  by (simp_all add: wait_next_main_def wait_next_overnads_def case_prod_beta io_defs)

lemma take_send_telegram_message [simp]:
  "take (length tr) (trace s) = tr
     \<Longrightarrow> take (length tr) (trace (send_telegram_message e t s)) = tr"
  by (simp add: send_telegram_message_def Let_def io_defs)

text \<open>The parts of the play loop only add to the trace.\<close>

lemma keeps_trace_handle_stuck_game_main:
  "take (length tr) (trace s) = tr \<Longrightarrow> keeps_trace tr (handle_stuck_game_main e text s)"
  unfolding handle_stuck_game_main_def
  by (auto intro!: keeps_trace_andthen keeps_trace_send_request keeps_trace_leaf
      simp: io_defs case_prod_beta split: option.splits)

lemma keeps_trace_finish_ticket_main:
  "take (length tr) (trace s) = tr
     \<Longrightarrow> keeps_trace tr (finish_ticket_main e n i start_response s)"
  unfolding finish_ticket_main_def
  by (auto intro!: keeps_trace_andthen keeps_trace_send_request keeps_trace_leaf
      simp: case_prod_beta print_info_def print_success_def print_warning_def print_error_def
        time_sleep_def emit_def)

lemma keeps_trace_play_ticket_main:
  "take (length tr) (trace s) = tr \<Longrightarrow> keeps_trace tr (play_ticket_main e n i s)"
  unfolding play_ticket_main_def
  by (auto intro!: keeps_trace_andthen keeps_trace_send_request keeps_trace_leaf
        keeps_trace_handle_stuck_game_main keeps_trace_finish_ticket_main
      simp: io_defs split: option.splits)

lemma keeps_trace_play_tickets_main:
  "take (length tr) (trace s) = tr \<Longrightarrow> keeps_trace tr (play_tickets_main e n is s)"
proof (induction "is" arbitrary: s tr)
  case Nil
  then show ?case by (simp add: keeps_trace_leaf)
next
  case (Cons i rest)
  show ?case
    unfolding play_tickets_main.simps
    by (intro keeps_trace_andthen keeps_trace_play_ticket_main Cons.prems Cons.IH) simp
qed

lemma keeps_trace_handle_stuck_game_overnads:
  "take (length tr) (trace s) = tr \<Longrightarrow> keeps_trace tr (handle_stuck_game_overnads e r s)"
  unfolding handle_stuck_game_overnads_def
  by (auto intro!: keeps_trace_andthen keeps_trace_send_request_with_retry keeps_trace_leaf
      simp: io_defs case_prod_beta split: option.splits sum.splits json.splits)

lemma keeps_trace_finish_ticket_overnads:
  "take (length tr) (trace s) = tr
     \<Longrightarrow> keeps_trace tr (finish_ticket_overnads e n i played start_response s)"
  unfolding finish_ticket_overnads_def
  by (auto intro!: keeps_trace_andthen keeps_trace_send_request_with_retry keeps_trace_leaf
      simp: case_prod_beta logging_info_def logging_warning_def logging_error_def
        time_sleep_def emit_def split: option.splits)

lemma keeps_trace_play_ticket_overnads:
  "take (length tr) (trace s) = tr \<Longrightarrow> keeps_trace tr (play_ticket_overnads e n i played s)"
  unfolding play_ticket_overnads_def
  by (auto intro!: keeps_trace_andthen keeps_trace_send_request_with_retry keeps_trace_leaf
        keeps_trace_handle_stuck_game_overnads keeps_trace_finish_ticket_overnads
      simp: io_defs split: option.splits)

lemma keeps_trace_play_tickets_overnads:
  "take (length tr) (trace s) = tr
     \<Longrightarrow> keeps_trace tr (play_tickets_overnads e n is played s)"
proof (induction "is" arbitrary: s tr played)
  case Nil
  then show ?case by (simp add: keeps_trace_leaf)
next
  case (Cons i rest)
  show ?case
    unfolding play_tickets_overnads.simps
    by (intro keeps_trace_andthen keeps_trace_play_ticket_overnads Cons.prems Cons.IH) simp
qed

text \<open>The loop over a list of tickets is the loop over its front, then over its back.\<close>

lemma play_tickets_main_append:
  "play_tickets_main e n (xs @ ys) s =
     andthen (play_tickets_main e n xs s) (\<lambda>done. play_tickets_main e n ys)"
proof (induction xs arbitrary: s)
  case Nil
  show ?case by simp
next
  case (Cons a xs)
  have "(\<lambda>done. play_tickets_main e n (xs @ ys)) =
        (\<lambda>v s. andthen (play_tickets_main e n xs s) (\<lambda>done. play_tickets_main e n ys))"
    by (intro ext) (simp only: Cons.IH)
  then show ?case
    unfolding append_Cons play_tickets_main.simps andthen_assoc
    by (rule arg_cong[where f = "andthen (play_ticket_main e n a s)"])
qed

lemma play_tickets_overnads_append:
  "play_tickets_overnads e n (xs @ ys) played s =
     andthen (play_tickets_overnads e n xs played s) (play_tickets_overnads e n ys)"
proof (induction xs arbitrary: s played)
  case Nil
  show ?case by simp
next
  case (Cons a xs)
  have "play_tickets_overnads e n (xs @ ys) =
        (\<lambda>v s. andthen (play_tickets_overnads e n xs v s) (play_tickets_overnads e n ys))"
    by (intro ext) (simp only: Cons.IH)
  then show ?case
    by (simp add: andthen_assoc)
qed

text \<open>
  A response that is a client error is false as a condition, so the stuck-game branch is
  never taken: the loop body is its start request followed by the rest of the body on
  the response of that request.
\<close>

lemma play_ticket_main_direct:
  "play_ticket_main e n i s =
     andthen (send_request e POST API_game_start None 3 3 (print_plain (M_PlayingTicket (i + 1) n) s))
       (finish_ticket_main e n i)"
proof -
  have "\<And>r. \<not> (response_ok r \<and> status_code r = 400 \<and> str_in ''active game'' (resp_text r))"
    by (simp add: response_ok_def)
  then show ?thesis
    unfolding play_ticket_main_def
    by (intro arg_cong2[where f = andthen] refl ext)
      (auto simp: response_ok_def split: option.splits)
qed

lemma play_ticket_overnads_direct:
  "play_ticket_overnads e n i played s =
     andthen
       (send_request_with_retry e API_game_start POST None 3 3
          (logging_info (O_Attempting (i + 1) n) (logging_info O_Rule s)))
       (finish_ticket_overnads e n i played)"
proof -
  have "\<And>r. \<not> (response_ok r \<and> status_code r = 400
                 \<and> str_in ''You already have an active game'' (resp_text r))"
    by (simp add: response_ok_def)
  then show ?thesis
    unfolding play_ticket_overnads_def
    by (intro arg_cong2[where f = andthen] refl ext)
      (auto simp: response_ok_def split: option.splits)
qed

text \<open>The started branch of the loop body, in main.py and in overnads.py.\<close>

lemma finish_ticket_main_played:
  assumes st: "status_code r = 200 \<or> status_code r = 201"
  shows "\<exists>points coin ticket rest.
         90 \<le> points \<and> points \<le> 110 \<and> 1 \<le> coin \<and> coin \<le> 4 \<and> 0 \<le> ticket \<and> ticket \<le> 4
         \<and> trace (snd (finish_ticket_main e tickets_available i (Some r) s)) =
             trace s @
             [Print INFO M_GameStarted, Sleep 30, Print INFO (M_EndingGame points),
              Request POST API_game_end
                (Some (JObj [(''overPoints'', JNum points),
                   (''collectedItems'',
                    JArr [JObj [(''type'', JStr ''coin''), (''count'', JNum coin)],
                          JObj [(''type'', JStr ''ticket''), (''count'', JNum ticket)]])]))]
             @ rest
         \<and> (\<forall>ev\<in>set rest. is_request ev \<longrightarrow>
               ev = Request POST API_game_end
                (Some (JObj [(''overPoints'', JNum points),
                   (''collectedItems'',
                    JArr [JObj [(''type'', JStr ''coin''), (''count'', JNum coin)],
                          JObj [(''type'', JStr ''ticket''), (''count'', JNum ticket)]])])))"
proof -
  let ?s0 = "time_sleep 30 (print_info M_GameStarted s)"
  let ?points = "fst (randint e 90 110 ?s0)"
  let ?s1 = "snd (randint e 90 110 ?s0)"
  let ?coin = "fst (randint e 1 4 ?s1)"
  let ?s2 = "snd (randint e 1 4 ?s1)"
  let ?ticket = "fst (randint e 0 4 ?s2)"
  let ?s3 = "snd (randint e 0 4 ?s2)"
  let ?pl = "Some (JObj [(''overPoints'', JNum ?points),
                   (''collectedItems'',
                    JArr [JObj [(''type'', JStr ''coin''), (''count'', JNum ?coin)],
                          JObj [(''type'', JStr ''ticket''), (''count'', JNum ?ticket)]])])"
  let ?s4 = "print_info (M_EndingGame ?points) ?s3"
  let ?sent = "send_request e POST API_game_end ?pl 3 3 ?s4"
  have unf: "finish_ticket_main e tickets_available i (Some r) s =
      andthen ?sent
        (\<lambda>ignored s5.
           (Inr (), wait_next_main e tickets_available i (print_success M_GameFinished s5)))"
    using st by (simp add: finish_ticket_main_def case_prod_beta)
  have rng: "90 \<le> ?points \<and> ?points \<le> 110" "1 \<le> ?coin \<and> ?coin \<le> 4"
    "0 \<le> ?ticket \<and> ?ticket \<le> 4"
    by (rule randint_range, simp)+
  have t4: "trace ?s4 = trace s @ [Print INFO M_GameStarted, Sleep 30,
              Print INFO (M_EndingGame ?points)]"
    by (simp add: io_defs)
  from send_request_first[of e POST API_game_end ?pl 3 ?s4] obtain new0 where
    n0: "trace (snd ?sent) = trace ?s4 @ Request POST API_game_end ?pl # new0"
    and r0: "\<forall>ev\<in>set new0. is_request ev \<longrightarrow> ev = Request POST API_game_end ?pl"
    by blast
  have "\<exists>tail. trace (snd (finish_ticket_main e tickets_available i (Some r) s))
                 = trace (snd ?sent) @ tail \<and> (\<forall>ev\<in>set tail. \<not> is_request ev)"
  proof (cases ?sent)
    case (Pair x s5)
    show ?thesis
    proof (cases x)
      case (Inl a)
      with Pair show ?thesis unfolding unf by simp
    next
      case (Inr v)
      from wait_next_main_trace[of e tickets_available i "print_success M_GameFinished s5"]
      obtain w where
        "trace (wait_next_main e tickets_available i (print_success M_GameFinished s5))
           = trace (print_success M_GameFinished s5) @ w"
        "\<forall>ev\<in>set w. \<not> is_request ev" by blast
      with Pair Inr show ?thesis unfolding unf
        by (intro exI[of _ "Print SUCCESS M_GameFinished # w"]) (simp add: io_defs)
    qed
  qed
  then obtain tail where
    t: "trace (snd (finish_ticket_main e tickets_available i (Some r) s))
          = trace (snd ?sent) @ tail"
    and rt: "\<forall>ev\<in>set tail. \<not> is_request ev" by blast
  have tr: "trace (snd (finish_ticket_main e tickets_available i (Some r) s)) =
          trace s @ [Print INFO M_GameStarted, Sleep 30, Print INFO (M_EndingGame ?points),
                     Request POST API_game_end ?pl] @ (new0 @ tail)"
    unfolding t n0 t4 by simp
  show ?thesis
    using rng tr r0 rt
    by (intro exI[of _ ?points] exI[of _ ?coin] exI[of _ ?ticket] exI[of _ "new0 @ tail"]) auto
qed

lemma finish_ticket_overnads_played:
  assumes st: "status_code r = 200 \<or> status_code r = 201"
  shows "\<exists>points coins tickets rest.
         90 \<le> points \<and> points \<le> 110 \<and> 1 \<le> coins \<and> coins \<le> 4 \<and> 0 \<le> tickets \<and> tickets \<le> 4
         \<and> trace (snd (finish_ticket_overnads e initial_tickets i games_played_successfully
                          (Some r) s)) =
             trace s @
             [Logging INFO O_GameStarted, Sleep 30,
              Logging INFO (O_EndingGame (JObj [(''overPoints'', JNum points),
                   (''collectedItems'',
                    JArr [JObj [(''type'', JStr ''coin''), (''count'', JNum coins)],
                          JObj [(''type'', JStr ''ticket''), (''count'', JNum tickets)]])])),
              Request POST API_game_end
                (Some (JObj [(''overPoints'', JNum points),
                   (''collectedItems'',
                    JArr [JObj [(''type'', JStr ''coin''), (''count'', JNum coins)],
                          JObj [(''type'', JStr ''ticket''), (''count'', JNum tickets)]])]))]
             @ rest
         \<and> (\<forall>ev\<in>set rest. is_request ev \<longrightarrow>
               ev = Request POST API_game_end
                (Some (JObj [(''overPoints'', JNum points),
                   (''collectedItems'',
                    JArr [JObj [(''type'', JStr ''coin''), (''count'', JNum coins)],
                          JObj [(''type'', JStr ''ticket''), (''count'', JNum tickets)]])])))"
proof -
  let ?s0 = "time_sleep 30 (logging_info O_GameStarted s)"
  let ?points = "fst (randint e 90 110 ?s0)"
  let ?s1 = "snd (randint e 90 110 ?s0)"
  let ?coins = "fst (randint e 1 4 ?s1)"
  let ?s2 = "snd (randint e 1 4 ?s1)"
  let ?tickets = "fst (randint e 0 4 ?s2)"
  let ?s3 = "snd (randint e 0 4 ?s2)"
  let ?doc = "JObj [(''overPoints'', JNum ?points),
                   (''collectedItems'',
                    JArr [JObj [(''type'', JStr ''coin''), (''count'', JNum ?coins)],
                          JObj [(''type'', JStr ''ticket''), (''count'', JNum ?tickets)]])]"
  let ?s4 = "logging_info (O_EndingGame ?doc) ?s3"
  let ?sent = "send_request_with_retry e API_game_end POST (Some ?doc) 3 3 ?s4"
  have unf: "finish_ticket_overnads e initial_tickets i games_played_successfully (Some r) s =
      andthen ?sent
        (\<lambda>ignored s5.
           (Inr (games_played_successfully + 1), wait_next_overnads e initial_tickets i s5))"
    using st by (simp add: finish_ticket_overnads_def case_prod_beta)
  have rng: "90 \<le> ?points \<and> ?points \<le> 110" "1 \<le> ?coins \<and> ?coins \<le> 4"
    "0 \<le> ?tickets \<and> ?tickets \<le> 4"
    by (rule randint_range, simp)+
  have t4: "trace ?s4 = trace s @ [Logging INFO O_GameStarted, Sleep 30,
              Logging INFO (O_EndingGame ?doc)]"
    by (simp add: io_defs)
  from send_request_with_retry_first[of e API_game_end "Some ?doc" 3 ?s4] obtain new0 where
    n0: "trace (snd ?sent) = trace ?s4 @ Request POST API_game_end (Some ?doc) # new0"
    and r0: "\<forall>ev\<in>set new0. is_request ev \<longrightarrow> ev = Request POST API_game_end (Some ?doc)"
    by blast
  have "\<exists>tail. trace (snd (finish_ticket_overnads e initial_tickets i games_played_successfully
                              (Some r) s))
                 = trace (snd ?sent) @ tail \<and> (\<forall>ev\<in>set tail. \<not> is_request ev)"
  proof (cases ?sent)
    case (Pair x s5)
    show ?thesis
    proof (cases x)
      case (Inl a)
      with Pair show ?thesis unfolding unf by simp
    next
      case (Inr v)
      from wait_next_overnads_trace[of e initial_tickets i s5]
      obtain w where
        "trace (wait_next_overnads e initial_tickets i s5) = trace s5 @ w"
        "\<forall>ev\<in>set w. \<not> is_request ev" by blast
      with Pair Inr show ?thesis unfolding unf
        by (intro exI[of _ w]) simp
    qed
  qed
  then obtain tail where
    t: "trace (snd (finish_ticket_overnads e initial_tickets i games_played_successfully
                      (Some r) s))
          = trace (snd ?sent) @ tail"
    and rt: "\<forall>ev\<in>set tail. \<not> is_request ev" by blast
  have tr: "trace (snd (finish_ticket_overnads e initial_tickets i games_played_successfully
                      (Some r) s)) =
          trace s @ [Logging INFO O_GameStarted, Sleep 30, Logging INFO (O_EndingGame ?doc),
                     Request POST API_game_end (Some ?doc)] @ (new0 @ tail)"
    unfolding t n0 t4 by simp
  show ?thesis
    using rng tr r0 rt
    by (intro exI[of _ ?points] exI[of _ ?coins] exI[of _ ?tickets] exI[of _ "new0 @ tail"]) auto
qed


text \<open>The started iteration inside the whole loop.\<close>

lemma play_all_games_main_played:
  assumes h0: "py_index tickets = Some n"
    and h1: "j < nat n"
    and h2: "play_tickets_main e n (map int [0..<j]) (print_info (M_StartingSequence tickets) s) = (Inr (), sj)"
    and h3: "send_request e POST API_game_start None 3 3 (print_plain (M_PlayingTicket (int j + 1) n) sj) = (Inr (Some r), st)"
    and h4: "(status_code r = 200 \<or> status_code r = 201)"
  shows "\<exists>points coin ticket rest.
         90 \<le> points \<and> points \<le> 110 \<and> 1 \<le> coin \<and> coin \<le> 4 \<and> 0 \<le> ticket \<and> ticket \<le> 4
         \<and> trace (snd (play_all_games_main e tickets s)) =
             trace st @
             [Print INFO M_GameStarted, Sleep 30, Print INFO (M_EndingGame points),
              Request POST API_game_end
                (Some (JObj [(''overPoints'', JNum points),
                   (''collectedItems'',
                    JArr [JObj [(''type'', JStr ''coin''), (''count'', JNum coin)],
                          JObj [(''type'', JStr ''ticket''), (''count'', JNum ticket)]])]))]
             @ rest"
proof -
  let ?s0 = "print_info (M_StartingSequence tickets) s"
  let ?F = "finish_ticket_main e n (int j) (Some r) st"
  let ?G = "\<lambda>(v::unit) s1. andthen (play_tickets_main e n (map int [Suc j..<nat n]) s1)
              (\<lambda>(done::unit) s2. (Inr (), print_success M_SequenceFinished s2))"
  have nz: "\<not> py_eq_zero tickets"
    using h0 h1 by (auto simp: py_eq_zero_def)
  have split: "map int [0..<nat n] = map int [0..<j] @ int j # map int [Suc j..<nat n]"
    using upt_split[OF h1] by simp
  have loop: "play_tickets_main e n (map int [0..<nat n]) ?s0 =
      andthen ?F (\<lambda>done. play_tickets_main e n (map int [Suc j..<nat n]))"
    unfolding split play_tickets_main_append
    by (simp add: h2 play_ticket_main_direct h3)
  have whole: "play_all_games_main e tickets s = andthen ?F ?G"
    unfolding play_all_games_main_def
    using nz by (simp add: h0 loop andthen_assoc)
  have "keeps_trace (trace (snd ?F)) (andthen ?F ?G)"
  proof (rule keeps_trace_andthen)
    show "keeps_trace (trace (snd ?F)) ?F"
      by (simp add: keeps_trace_def)
  next
    fix v s1
    show "keeps_trace (trace s1) (?G v s1)"
      by (intro keeps_trace_andthen keeps_trace_play_tickets_main keeps_trace_leaf)
        (simp_all add: print_success_def emit_def)
  qed
  then obtain new where new: "trace (snd (play_all_games_main e tickets s)) = trace (snd ?F) @ new"
    unfolding whole keeps_trace_iff by blast
  from finish_ticket_main_played[OF h4, of e n "int j" st]
  obtain points coin ticket rest where
    rng: "90 \<le> points \<and> points \<le> 110 \<and> 1 \<le> coin \<and> coin \<le> 4 \<and> 0 \<le> ticket \<and> ticket \<le> 4"
    and tr: "trace (snd ?F) = trace st @
             [Print INFO M_GameStarted, Sleep 30, Print INFO (M_EndingGame points),
              Request POST API_game_end
                (Some (JObj [(''overPoints'', JNum points),
                   (''collectedItems'',
                    JArr [JObj [(''type'', JStr ''coin''), (''count'', JNum coin)],
                          JObj [(''type'', JStr ''ticket''), (''count'', JNum ticket)]])]))]
             @ rest"
    by blast
  show ?thesis
    using rng new tr
    by (intro exI[of _ points] exI[of _ coin] exI[of _ ticket] exI[of _ "rest @ new"]) simp
qed


lemma play_all_games_overnads_played:
  assumes h0: "py_get (account_stats s) ''tickets'' (JNum 0) = Inr tickets"
    and h1: "py_index tickets = Some n"
    and h2: "j < nat n"
    and h3: "play_tickets_overnads e n (map int [0..<j]) 0 (logging_info (O_StartingSequence tickets) s) = (Inr played, sj)"
    and h4: "send_request_with_retry e API_game_start POST None 3 3 (logging_info (O_Attempting (int j + 1) n) (logging_info O_Rule sj)) = (Inr (Some r), st)"
    and h5: "(status_code r = 200 \<or> status_code r = 201)"
  shows "\<exists>points coins collected rest.
         90 \<le> points \<and> points \<le> 110 \<and> 1 \<le> coins \<and> coins \<le> 4 \<and> 0 \<le> collected \<and> collected \<le> 4
         \<and> trace (snd (play_all_games_overnads e s)) =
             trace st @
             [Logging INFO O_GameStarted, Sleep 30,
              Logging INFO (O_EndingGame (JObj [(''overPoints'', JNum points),
                   (''collectedItems'',
                    JArr [JObj [(''type'', JStr ''coin''), (''count'', JNum coins)],
                          JObj [(''type'', JStr ''ticket''), (''count'', JNum collected)]])])),
              Request POST API_game_end
                (Some (JObj [(''overPoints'', JNum points),
                   (''collectedItems'',
                    JArr [JObj [(''type'', JStr ''coin''), (''count'', JNum coins)],
                          JObj [(''type'', JStr ''ticket''), (''count'', JNum collected)]])]))]
             @ rest"
proof -
  let ?s0 = "logging_info (O_StartingSequence tickets) s"
  let ?F = "finish_ticket_overnads e n (int j) played (Some r) st"
  let ?G = "\<lambda>v s1. andthen (play_tickets_overnads e n (map int [Suc j..<nat n]) v s1)
              (\<lambda>games_played_successfully s2.
                 (Inr (), logging_info (O_SequenceFinished games_played_successfully) s2))"
  have nz: "\<not> py_eq_zero tickets"
    using h1 h2 by (auto simp: py_eq_zero_def)
  have split: "map int [0..<nat n] = map int [0..<j] @ int j # map int [Suc j..<nat n]"
    using upt_split[OF h2] by simp
  have loop: "play_tickets_overnads e n (map int [0..<nat n]) 0 ?s0 =
      andthen ?F (play_tickets_overnads e n (map int [Suc j..<nat n]))"
    unfolding split play_tickets_overnads_append
    by (simp add: h3 play_ticket_overnads_direct h4)
  have whole: "play_all_games_overnads e s = andthen ?F ?G"
    unfolding play_all_games_overnads_def
    using nz by (simp add: h0 h1 loop andthen_assoc)
  have "keeps_trace (trace (snd ?F)) (andthen ?F ?G)"
  proof (rule keeps_trace_andthen)
    show "keeps_trace (trace (snd ?F)) ?F"
      by (simp add: keeps_trace_def)
  next
    fix v s1
    show "keeps_trace (trace s1) (?G v s1)"
      by (intro keeps_trace_andthen keeps_trace_play_tickets_overnads keeps_trace_leaf)
        (simp_all add: logging_info_def emit_def)
  qed
  then obtain new where new: "trace (snd (play_all_games_overnads e s)) = trace (snd ?F) @ new"
    unfolding whole keeps_trace_iff by blast
  from finish_ticket_overnads_played[OF h5, of e n "int j" played st]
  obtain points coins tickets' rest where
    rng: "90 \<le> points \<and> points \<le> 110 \<and> 1 \<le> coins \<and> coins \<le> 4 \<and> 0 \<le> tickets' \<and> tickets' \<le> 4"
    and tr: "trace (snd ?F) = trace st @
             [Logging INFO O_GameStarted, Sleep 30,
              Logging INFO (O_EndingGame (JObj [(''overPoints'', JNum points),
                   (''collectedItems'',
                    JArr [JObj [(''type'', JStr ''coin''), (''count'', JNum coins)],
                          JObj [(''type'', JStr ''ticket''), (''count'', JNum tickets')]])])),
              Request POST API_game_end
                (Some (JObj [(''overPoints'', JNum points),
                   (''collectedItems'',
                    JArr [JObj [(''type'', JStr ''coin''), (''count'', JNum coins)],
                          JObj [(''type'', JStr ''ticket''), (''count'', JNum tickets')]])]))]
             @ rest"
    by blast
  show ?thesis
    using rng new tr
    by (intro exI[of _ points] exI[of _ coins] exI[of _ tickets'] exI[of _ "rest @ new"]) simp
qed

text \<open>
  Claim C8. In both files the body of the play loop is its start request followed by the
  rest of the body on the response of that request (the first one, or the one after a
  recovery). When that response has status 200 or 201, the rest of the body sleeps 30
  seconds and then makes its end request; every request of that iteration from there on
  is that end request, with an \<open>overPoints\<close> in [90,110] and exactly two collected items,
  a coin entry with a count in [1,4] and a ticket entry with a count in [0,4]. So it is
  in \<open>play_all_games\<close> as a whole: for every ticket \<open>j\<close> of the range that the loop reaches
  (the iterations before it returned) and whose start request is answered 200 or 201, the
  run of \<open>play_all_games\<close> goes on, right after that start request, with the line that the
  game started, the sleep of 30 seconds, the line about the end of the game and the end
  request with such a payload.
\<close>

theorem started_game_is_played:
  "(status_code r = 200 \<or> status_code r = 201 \<longrightarrow>
      (\<exists>points coin ticket rest.
         90 \<le> points \<and> points \<le> 110 \<and> 1 \<le> coin \<and> coin \<le> 4 \<and> 0 \<le> ticket \<and> ticket \<le> 4
         \<and> trace (snd (finish_ticket_main e tickets_available i (Some r) s)) =
             trace s @
             [Print INFO M_GameStarted, Sleep 30, Print INFO (M_EndingGame points),
              Request POST API_game_end
                (Some (JObj [(''overPoints'', JNum points),
                   (''collectedItems'',
                    JArr [JObj [(''type'', JStr ''coin''), (''count'', JNum coin)],
                          JObj [(''type'', JStr ''ticket''), (''count'', JNum ticket)]])]))]
             @ rest
         \<and> (\<forall>ev\<in>set rest. is_request ev \<longrightarrow>
               ev = Request POST API_game_end
                (Some (JObj [(''overPoints'', JNum points),
                   (''collectedItems'',
                    JArr [JObj [(''type'', JStr ''coin''), (''count'', JNum coin)],
                          JObj [(''type'', JStr ''ticket''), (''count'', JNum ticket)]])])))))
   \<and> (status_code r = 200 \<or> status_code r = 201 \<longrightarrow>
      (\<exists>points coins tickets rest.
         90 \<le> points \<and> points \<le> 110 \<and> 1 \<le> coins \<and> coins \<le> 4 \<and> 0 \<le> tickets \<and> tickets \<le> 4
         \<and> trace (snd (finish_ticket_overnads e initial_tickets i games_played_successfully
                          (Some r) s)) =
             trace s @
             [Logging INFO O_GameStarted, Sleep 30,
              Logging INFO (O_EndingGame (JObj [(''overPoints'', JNum points),
                   (''collectedItems'',
                    JArr [JObj [(''type'', JStr ''coin''), (''count'', JNum coins)],
                          JObj [(''type'', JStr ''ticket''), (''count'', JNum tickets)]])])),
              Request POST API_game_end
                (Some (JObj [(''overPoints'', JNum points),
                   (''collectedItems'',
                    JArr [JObj [(''type'', JStr ''coin''), (''count'', JNum coins)],
                          JObj [(''type'', JStr ''ticket''), (''count'', JNum tickets)]])]))]
             @ rest
         \<and> (\<forall>ev\<in>set rest. is_request ev \<longrightarrow>
               ev = Request POST API_game_end
                (Some (JObj [(''overPoints'', JNum points),
                   (''collectedItems'',
                    JArr [JObj [(''type'', JStr ''coin''), (''count'', JNum coins)],
                          JObj [(''type'', JStr ''ticket''), (''count'', JNum tickets)]])])))))
   \<and> play_ticket_main e tickets_available i s =
       andthen
         (send_request e POST API_game_start None 3 3
            (print_plain (M_PlayingTicket (i + 1) tickets_available) s))
         (finish_ticket_main e tickets_available i)
   \<and> play_ticket_overnads e initial_tickets i games_played_successfully s =
       andthen
         (send_request_with_retry e API_game_start POST None 3 3
            (logging_info (O_Attempting (i + 1) initial_tickets) (logging_info O_Rule s)))
         (finish_ticket_overnads e initial_tickets i games_played_successfully)
   \<and> (py_index tickets = Some n
      \<and> j < nat n
      \<and> play_tickets_main e n (map int [0..<j]) (print_info (M_StartingSequence tickets) s) = (Inr (), sj)
      \<and> send_request e POST API_game_start None 3 3
          (print_plain (M_PlayingTicket (int j + 1) n) sj) = (Inr (Some r), st)
      \<and> (status_code r = 200 \<or> status_code r = 201) \<longrightarrow>
      (\<exists>points coin ticket rest.
         90 \<le> points \<and> points \<le> 110 \<and> 1 \<le> coin \<and> coin \<le> 4 \<and> 0 \<le> ticket \<and> ticket \<le> 4
         \<and> trace (snd (play_all_games_main e tickets s)) =
             trace st @
             [Print INFO M_GameStarted, Sleep 30, Print INFO (M_EndingGame points),
              Request POST API_game_end
                (Some (JObj [(''overPoints'', JNum points),
                   (''collectedItems'',
                    JArr [JObj [(''type'', JStr ''coin''), (''count'', JNum coin)],
                          JObj [(''type'', JStr ''ticket''), (''count'', JNum ticket)]])]))]
             @ rest))
   \<and> (py_get (account_stats s) ''tickets'' (JNum 0) = Inr tickets
      \<and> py_index tickets = Some n
      \<and> j < nat n
      \<and> play_tickets_overnads e n (map int [0..<j]) 0
          (logging_info (O_StartingSequence tickets) s) = (Inr played, sj)
      \<and> send_request_with_retry e API_game_start POST None 3 3
          (logging_info (O_Attempting (int j + 1) n) (logging_info O_Rule sj)) = (Inr (Some r), st)
      \<and> (status_code r = 200 \<or> status_code r = 201) \<longrightarrow>
      (\<exists>points coins collected rest.
         90 \<le> points \<and> points \<le> 110 \<and> 1 \<le> coins \<and> coins \<le> 4 \<and> 0 \<le> collected \<and> collected \<le> 4
         \<and> trace (snd (play_all_games_overnads e s)) =
             trace st @
             [Logging INFO O_GameStarted, Sleep 30,
              Logging INFO (O_EndingGame (JObj [(''overPoints'', JNum points),
                   (''collectedItems'',
                    JArr [JObj [(''type'', JStr ''coin''), (''count'', JNum coins)],
                          JObj [(''type'', JStr ''ticket''), (''count'', JNum collected)]])])),
              Request POST API_game_end
                (Some (JObj [(''overPoints'', JNum points),
                   (''collectedItems'',
                    JArr [JObj [(''type'', JStr ''coin''), (''count'', JNum coins)],
                          JObj [(''type'', JStr ''ticket''), (''count'', JNum collected)]])]))]
             @ rest))"
  apply (intro conjI impI)
  subgoal by (rule finish_ticket_main_played)
  subgoal by (rule finish_ticket_overnads_played)
  subgoal by (rule play_ticket_main_direct)
  subgoal by (rule play_ticket_overnads_direct)
  subgoal by (elim conjE) (rule play_all_games_main_played; assumption)
  subgoal by (elim conjE) (rule play_all_games_overnads_played; assumption)
  done

text \<open>
  The theorem at a server that answers 200 to every request, for the second of two
  tickets in the loop and for the first response in the rest of the body.
\<close>

theorem started_game_is_played_witness:
  "status_code ok_response = 200
   \<and> py_index (JNum 2) = Some 2 \<and> (1::nat) < nat 2
   \<and> play_tickets_main env_ok 2 (map int [0..<1])
        (print_info (M_StartingSequence (JNum 2)) init) = (Inr (), first_played_main)
   \<and> send_request env_ok POST API_game_start None 3 3
        (print_plain (M_PlayingTicket (int 1 + 1) 2) first_played_main) =
       (Inr (Some ok_response), second_started_main)
   \<and> (\<exists>points coin ticket rest.
         90 \<le> points \<and> points \<le> 110 \<and> 1 \<le> coin \<and> coin \<le> 4 \<and> 0 \<le> ticket \<and> ticket \<le> 4
         \<and> trace (snd (play_all_games_main env_ok (JNum 2) init)) =
             trace second_started_main @
             [Print INFO M_GameStarted, Sleep 30, Print INFO (M_EndingGame points),
              Request POST API_game_end
                (Some (JObj [(''overPoints'', JNum points),
                   (''collectedItems'',
                    JArr [JObj [(''type'', JStr ''coin''), (''count'', JNum coin)],
                          JObj [(''type'', JStr ''ticket''), (''count'', JNum ticket)]])]))]
             @ rest)
   \<and> py_get (account_stats two_tickets) ''tickets'' (JNum 0) = Inr (JNum 2)
   \<and> play_tickets_overnads env_ok 2 (map int [0..<1]) 0
        (logging_info (O_StartingSequence (JNum 2)) two_tickets) = (Inr 1, first_played_overnads)
   \<and> send_request_with_retry env_ok API_game_start POST None 3 3
        (logging_info (O_Attempting (int 1 + 1) 2) (logging_info O_Rule first_played_overnads)) =
       (Inr (Some ok_response), second_started_overnads)
   \<and> (\<exists>points coins collected rest.
         90 \<le> points \<and> points \<le> 110 \<and> 1 \<le> coins \<and> coins \<le> 4 \<and> 0 \<le> collected \<and> collected \<le> 4
         \<and> trace (snd (play_all_games_overnads env_ok two_tickets)) =
             trace second_started_overnads @
             [Logging INFO O_GameStarted, Sleep 30,
              Logging INFO (O_EndingGame (JObj [(''overPoints'', JNum points),
                   (''collectedItems'',
                    JArr [JObj [(''type'', JStr ''coin''), (''count'', JNum coins)],
                          JObj [(''type'', JStr ''ticket''), (''count'', JNum collected)]])])),
              Request POST API_game_end
                (Some (JObj [(''overPoints'', JNum points),
                   (''collectedItems'',
                    JArr [JObj [(''type'', JStr ''coin''), (''count'', JNum coins)],
                          JObj [(''type'', JStr ''ticket''), (''count'', JNum collected)]])]))]
             @ rest)
   \<and> (\<exists>points coin ticket rest.
         90 \<le> points \<and> points \<le> 110 \<and> 1 \<le> coin \<and> coin \<le> 4 \<and> 0 \<le> ticket \<and> ticket \<le> 4
         \<and> trace (snd (finish_ticket_main env_ok 1 0 (Some ok_response) init)) =
             trace init @
             [Print INFO M_GameStarted, Sleep 30, Print INFO (M_EndingGame points),
              Request POST API_game_end
                (Some (JObj [(''overPoints'', JNum points),
                   (''collectedItems'',
                    JArr [JObj [(''type'', JStr ''coin''), (''count'', JNum coin)],
                          JObj [(''type'', JStr ''ticket''), (''count'', JNum ticket)]])]))]
             @ rest)
   \<and> (\<exists>points coins tickets rest.
         90 \<le> points \<and> points \<le> 110 \<and> 1 \<le> coins \<and> coins \<le> 4 \<and> 0 \<le> tickets \<and> tickets \<le> 4
         \<and> trace (snd (finish_ticket_overnads env_ok 1 0 0 (Some ok_response) init)) =
             trace init @
             [Logging INFO O_GameStarted, Sleep 30,
              Logging INFO (O_EndingGame (JObj [(''overPoints'', JNum points),
                   (''collectedItems'',
                    JArr [JObj [(''type'', JStr ''coin''), (''count'', JNum coins)],
                          JObj [(''type'', JStr ''ticket''), (''count'', JNum tickets)]])])),
              Request POST API_game_end
                (Some (JObj [(''overPoints'', JNum points),
                   (''collectedItems'',
                    JArr [JObj [(''type'', JStr ''coin''), (''count'', JNum coins)],
                          JObj [(''type'', JStr ''ticket''), (''count'', JNum tickets)]])]))]
             @ rest)"
proof -
  have st: "status_code ok_response = 200 \<or> status_code ok_response = 201"
    by (simp add: ok_response_def)
  have m1: "play_tickets_main env_ok 2 (map int [0..<1])
        (print_info (M_StartingSequence (JNum 2)) init) = (Inr (), first_played_main)"
    by (simp add: play_ticket_main_def finish_ticket_main_def wait_next_main_def
        send_request_def three_attempts io_defs randint_def env_ok_def ok_response_def
        init_def truthy_and_def if_truthy_def response_ok_def first_played_main_def)
  have m2: "send_request env_ok POST API_game_start None 3 3
        (print_plain (M_PlayingTicket (int 1 + 1) 2) first_played_main) =
       (Inr (Some ok_response), second_started_main)"
    by (simp add: send_request_def three_attempts io_defs env_ok_def ok_response_def
        first_played_main_def second_started_main_def)
  have o0: "py_get (account_stats two_tickets) ''tickets'' (JNum 0) = Inr (JNum 2)"
    by (simp add: two_tickets_def init_def dict_get_def)
  have o1: "play_tickets_overnads env_ok 2 (map int [0..<1]) 0
        (logging_info (O_StartingSequence (JNum 2)) two_tickets) = (Inr 1, first_played_overnads)"
    by (simp add: play_ticket_overnads_def finish_ticket_overnads_def wait_next_overnads_def
        send_request_with_retry_def three_attempts io_defs randint_def env_ok_def
        ok_response_def init_def two_tickets_def truthy_and_def if_truthy_def response_ok_def
        first_played_overnads_def)
  have o2: "send_request_with_retry env_ok API_game_start POST None 3 3
        (logging_info (O_Attempting (int 1 + 1) 2) (logging_info O_Rule first_played_overnads)) =
       (Inr (Some ok_response), second_started_overnads)"
    by (simp add: send_request_with_retry_def three_attempts io_defs env_ok_def ok_response_def
        first_played_overnads_def second_started_overnads_def)
  have n: "py_index (JNum 2) = Some 2" "(1::nat) < nat 2"
    by simp_all
  from started_game_is_played[where r = ok_response and e = env_ok and s = init
      and tickets_available = 1 and initial_tickets = 1 and i = 0
      and games_played_successfully = 0 and tickets = "JNum 2" and n = 2 and j = 1
      and sj = first_played_main and st = second_started_main] st n m1 m2
  have a: "(\<exists>points coin ticket rest.
         90 \<le> points \<and> points \<le> 110 \<and> 1 \<le> coin \<and> coin \<le> 4 \<and> 0 \<le> ticket \<and> ticket \<le> 4
         \<and> trace (snd (play_all_games_main env_ok (JNum 2) init)) =
             trace second_started_main @
             [Print INFO M_GameStarted, Sleep 30, Print INFO (M_EndingGame points),
              Request POST API_game_end
                (Some (JObj [(''overPoints'', JNum points),
                   (''collectedItems'',
                    JArr [JObj [(''type'', JStr ''coin''), (''count'', JNum coin)],
                          JObj [(''type'', JStr ''ticket''), (''count'', JNum ticket)]])]))]
             @ rest)" "(\<exists>points coin ticket rest.
         90 \<le> points \<and> points \<le> 110 \<and> 1 \<le> coin \<and> coin \<le> 4 \<and> 0 \<le> ticket \<and> ticket \<le> 4
         \<and> trace (snd (finish_ticket_main env_ok 1 0 (Some ok_response) init)) =
             trace init @
             [Print INFO M_GameStarted, Sleep 30, Print INFO (M_EndingGame points),
              Request POST API_game_end
                (Some (JObj [(''overPoints'', JNum points),
                   (''collectedItems'',
                    JArr [JObj [(''type'', JStr ''coin''), (''count'', JNum coin)],
                          JObj [(''type'', JStr ''ticket''), (''count'', JNum ticket)]])]))]
             @ rest
         \<and> (\<forall>ev\<in>set rest. is_request ev \<longrightarrow>
               ev = Request POST API_game_end
                (Some (JObj [(''overPoints'', JNum points),
                   (''collectedItems'',
                    JArr [JObj [(''type'', JStr ''coin''), (''count'', JNum coin)],
                          JObj [(''type'', JStr ''ticket''), (''count'', JNum ticket)]])]))))" "(\<exists>points coins tickets rest.
         90 \<le> points \<and> points \<le> 110 \<and> 1 \<le> coins \<and> coins \<le> 4 \<and> 0 \<le> tickets \<and> tickets \<le> 4
         \<and> trace (snd (finish_ticket_overnads env_ok 1 0 0 (Some ok_response) init)) =
             trace init @
             [Logging INFO O_GameStarted, Sleep 30,
              Logging INFO (O_EndingGame (JObj [(''overPoints'', JNum points),
                   (''collectedItems'',
                    JArr [JObj [(''type'', JStr ''coin''), (''count'', JNum coins)],
                          JObj [(''type'', JStr ''ticket''), (''count'', JNum tickets)]])])),
              Request POST API_game_end
                (Some (JObj [(''overPoints'', JNum points),
                   (''collectedItems'',
                    JArr [JObj [(''type'', JStr ''coin''), (''count'', JNum coins)],
                          JObj [(''type'', JStr ''ticket''), (''count'', JNum tickets)]])]))]
             @ rest
         \<and> (\<forall>ev\<in>set rest. is_request ev \<longrightarrow>
               ev = Request POST API_game_end
                (Some (JObj [(''overPoints'', JNum points),
                   (''collectedItems'',
                    JArr [JObj [(''type'', JStr ''coin''), (''count'', JNum coins)],
                          JObj [(''type'', JStr ''ticket''), (''count'', JNum tickets)]])]))))"
    by blast+
  from started_game_is_played[where r = ok_response and e = env_ok and s = two_tickets
      and tickets = "JNum 2" and n = 2 and j = 1 and played = 1
      and sj = first_played_overnads and st = second_started_overnads] st n o0 o1 o2
  have b: "\<exists>points coins collected rest.
         90 \<le> points \<and> points \<le> 110 \<and> 1 \<le> coins \<and> coins \<le> 4 \<and> 0 \<le> collected \<and> collected \<le> 4
         \<and> trace (snd (play_all_games_overnads env_ok two_tickets)) =
             trace second_started_overnads @
             [Logging INFO O_GameStarted, Sleep 30,
              Logging INFO (O_EndingGame (JObj [(''overPoints'', JNum points),
                   (''collectedItems'',
                    JArr [JObj [(''type'', JStr ''coin''), (''count'', JNum coins)],
                          JObj [(''type'', JStr ''ticket''), (''count'', JNum collected)]])])),
              Request POST API_game_end
                (Some (JObj [(''overPoints'', JNum points),
                   (''collectedItems'',
                    JArr [JObj [(''type'', JStr ''coin''), (''count'', JNum coins)],
                          JObj [(''type'', JStr ''ticket''), (''count'', JNum collected)]])]))]
             @ rest"
    by blast
  show ?thesis
    using st n m1 m2 o0 o1 o2 a b by (simp add: ok_response_def) blast
qed

end
